theory Spec2Isabelle
  imports Main "HOL-Library.Word" "HOL-Library.Monad_Syntax" "HOL-Library.Char_ord"
    "HOL-Library.List_Lexorder"
begin

unbundle bit_operations_syntax

section \<open>Byte slices\<close>

text \<open>
  A Go \<open>[]byte\<close> is a window on a backing array: \<open>elems\<close> are the \<open>len(b)\<close> bytes the
  slice shows, \<open>spare\<close> are the bytes of the backing array between \<open>len(b)\<close> and
  \<open>cap(b)\<close>. An index expression \<open>b[i]\<close> panics unless \<open>i < len(b)\<close>; a slice expression
  \<open>b[i:j]\<close> panics unless \<open>i \<le> j \<le> cap(b)\<close>, so it can bring spare bytes into view.
  A run-time panic is the value \<open>None\<close>.

  Go's \<open>int\<close> is taken to be 64 bits wide. Every index computed by the sniffer is
  non-negative and below \<open>len(b) + 2^33\<close>, so indices are natural numbers.
\<close>

type_synonym byte = "8 word"
type_synonym uint16 = "16 word"
type_synonym uint32 = "32 word"
type_synonym uint64 = "64 word"

datatype bytes = Slice (elems: "byte list") (spare: "byte list")

definition len :: "bytes \<Rightarrow> nat" where
  "len b = length (elems b)"

definition cap :: "bytes \<Rightarrow> nat" where
  "cap b = length (elems b) + length (spare b)"

text \<open>\<open>ix b i\<close> is \<open>b[i]\<close> where a length test of the source has established \<open>i < len(b)\<close>;
  \<open>byte_at b i\<close> is \<open>b[i]\<close> with Go's bounds check.\<close>

definition ix :: "bytes \<Rightarrow> nat \<Rightarrow> byte" where
  "ix b i = elems b ! i"

definition byte_at :: "bytes \<Rightarrow> nat \<Rightarrow> byte option" where
  "byte_at b i = (if i < len b then Some (ix b i) else None)"

definition reslice :: "bytes \<Rightarrow> nat \<Rightarrow> nat \<Rightarrow> bytes option" where
  "reslice b i j =
    (if i \<le> j \<and> j \<le> cap b
     then Some (Slice (take (j - i) (drop i (elems b @ spare b))) (drop j (elems b @ spare b)))
     else None)"

abbreviation ch :: "char \<Rightarrow> byte" where
  "ch c \<equiv> of_char c"

abbreviation u32 :: "byte \<Rightarrow> uint32" where
  "u32 x \<equiv> ucast x"

section \<open>Image types and Info\<close>

datatype Type =
  Unknown | BMP | BPM | GIF | JPEG | MNG | PBM | PCX | PGM | PNG | PPM | PSD | RAS | RGB
  | TIFF | WEBP | XBM | XPM | XV | AVIF

record Info =
  Type :: Type
  Width :: uint32
  Height :: uint32

text \<open>The zero value of \<open>Info\<close>, which \<open>GetInfo\<close> starts from (named result \<open>info\<close>).\<close>

definition zero_Info :: Info where
  "zero_Info = \<lparr>Type = Unknown, Width = 0, Height = 0\<rparr>"

section \<open>Byte orders\<close>

datatype byteOrder = littleEndian | bigEndian

definition Uint16 :: "byteOrder \<Rightarrow> bytes \<Rightarrow> uint16 option" where
  "Uint16 order b =
    (if len b < 2 then None
     else Some (case order of
        littleEndian \<Rightarrow> ucast (ix b 0) OR push_bit 8 (ucast (ix b 1))
      | bigEndian \<Rightarrow> ucast (ix b 1) OR push_bit 8 (ucast (ix b 0))))"

definition Uint32 :: "byteOrder \<Rightarrow> bytes \<Rightarrow> uint32 option" where
  "Uint32 order b =
    (if len b < 4 then None
     else Some (case order of
        littleEndian \<Rightarrow>
          u32 (ix b 0) OR push_bit 8 (u32 (ix b 1)) OR push_bit 16 (u32 (ix b 2))
            OR push_bit 24 (u32 (ix b 3))
      | bigEndian \<Rightarrow>
          u32 (ix b 3) OR push_bit 8 (u32 (ix b 2)) OR push_bit 16 (u32 (ix b 1))
            OR push_bit 24 (u32 (ix b 0))))"

definition readUint64 :: "bytes \<Rightarrow> uint64 option" where
  "readUint64 b =
    (if len b < 8 then None
     else Some (push_bit 56 (ucast (ix b 0)) OR push_bit 48 (ucast (ix b 1))
        OR push_bit 40 (ucast (ix b 2)) OR push_bit 32 (ucast (ix b 3))
        OR push_bit 24 (ucast (ix b 4)) OR push_bit 16 (ucast (ix b 5))
        OR push_bit 8 (ucast (ix b 6)) OR ucast (ix b 7)))"

section \<open>Signature tests\<close>

definition hasJPEG :: "bytes \<Rightarrow> bool" where
  "hasJPEG b \<longleftrightarrow> len b \<ge> 2 \<and> ix b 0 = 0xff \<and> ix b 1 = 0xd8"

definition hasPNG :: "bytes \<Rightarrow> bool" where
  "hasPNG b \<longleftrightarrow> len b \<ge> 8 \<and> ix b 0 = 0x89 \<and> ix b 1 = ch CHR ''P'' \<and> ix b 2 = ch CHR ''N''
     \<and> ix b 3 = ch CHR ''G'' \<and> ix b 4 = 0x0d \<and> ix b 5 = 0x0a \<and> ix b 6 = 0x1a \<and> ix b 7 = 0x0a"

definition hasWEBP :: "bytes \<Rightarrow> bool" where
  "hasWEBP b \<longleftrightarrow> len b \<ge> 12 \<and> ix b 0 = ch CHR ''R'' \<and> ix b 1 = ch CHR ''I''
     \<and> ix b 2 = ch CHR ''F'' \<and> ix b 3 = ch CHR ''F'' \<and> ix b 8 = ch CHR ''W''
     \<and> ix b 9 = ch CHR ''E'' \<and> ix b 10 = ch CHR ''B'' \<and> ix b 11 = ch CHR ''P''"

definition hasGIF :: "bytes \<Rightarrow> bool" where
  "hasGIF b \<longleftrightarrow> len b \<ge> 6 \<and> ix b 0 = ch CHR ''G'' \<and> ix b 1 = ch CHR ''I''
     \<and> ix b 2 = ch CHR ''F'' \<and> ix b 3 = ch CHR ''8''
     \<and> (ix b 4 = ch CHR ''7'' \<or> ix b 4 = ch CHR '','' \<or> ix b 4 = ch CHR ''9'')
     \<and> ix b 5 = ch CHR ''a''"

definition hasBMP :: "bytes \<Rightarrow> bool" where
  "hasBMP b \<longleftrightarrow> len b \<ge> 2 \<and> ix b 0 = ch CHR ''B'' \<and> ix b 1 = ch CHR ''M''"

definition hasPPM :: "bytes \<Rightarrow> bool" where
  "hasPPM b =
    (if len b < 2 \<or> ix b 0 \<noteq> ch CHR ''P'' then False
     else if ix b 1 \<in> {ch CHR ''1'', ch CHR ''2'', ch CHR ''3'', ch CHR ''4'', ch CHR ''5'',
                        ch CHR ''6'', ch CHR ''7''} then True
     else False)"

definition hasXBM :: "bytes \<Rightarrow> bool" where
  "hasXBM b \<longleftrightarrow> len b \<ge> 8 \<and> ix b 0 = ch CHR ''#'' \<and> ix b 1 = ch CHR ''d''
     \<and> ix b 2 = ch CHR ''e'' \<and> ix b 3 = ch CHR ''f'' \<and> ix b 4 = ch CHR ''i''
     \<and> ix b 5 = ch CHR ''n'' \<and> ix b 6 = ch CHR ''e''
     \<and> (ix b 7 = ch CHR '' '' \<or> ix b 7 = 0x09)"

definition hasXPM :: "bytes \<Rightarrow> bool" where
  "hasXPM b \<longleftrightarrow> len b \<ge> 9 \<and> ix b 0 = ch CHR ''/'' \<and> ix b 1 = ch CHR ''*''
     \<and> ix b 2 = ch CHR '' '' \<and> ix b 3 = ch CHR ''X'' \<and> ix b 4 = ch CHR ''P''
     \<and> ix b 5 = ch CHR ''M'' \<and> ix b 6 = ch CHR '' '' \<and> ix b 7 = ch CHR ''*''
     \<and> ix b 8 = ch CHR ''/''"

definition hasTIFFBig :: "bytes \<Rightarrow> bool" where
  "hasTIFFBig b \<longleftrightarrow> len b \<ge> 4 \<and> ix b 0 = ch CHR ''M'' \<and> ix b 1 = ch CHR ''M''
     \<and> ix b 2 = 0x00 \<and> ix b 3 = 0x2a"

definition hasTIFFLittle :: "bytes \<Rightarrow> bool" where
  "hasTIFFLittle b \<longleftrightarrow> len b \<ge> 4 \<and> ix b 0 = ch CHR ''I'' \<and> ix b 1 = ch CHR ''I''
     \<and> ix b 2 = 0x2a \<and> ix b 3 = 0x00"

definition hasPSD :: "bytes \<Rightarrow> bool" where
  "hasPSD b \<longleftrightarrow> len b \<ge> 4 \<and> ix b 0 = ch CHR ''8'' \<and> ix b 1 = ch CHR ''B''
     \<and> ix b 2 = ch CHR ''P'' \<and> ix b 3 = ch CHR ''S''"

definition hasMNG :: "bytes \<Rightarrow> bool" where
  "hasMNG b \<longleftrightarrow> len b \<ge> 8 \<and> ix b 0 = 0x8a \<and> ix b 1 = ch CHR ''M'' \<and> ix b 2 = ch CHR ''N''
     \<and> ix b 3 = ch CHR ''G'' \<and> ix b 4 = 0x0d \<and> ix b 5 = 0x0a \<and> ix b 6 = 0x1a \<and> ix b 7 = 0x0a"

definition hasRGB :: "bytes \<Rightarrow> bool" where
  "hasRGB b \<longleftrightarrow> len b \<ge> 6 \<and> ix b 0 = 0x01 \<and> ix b 1 = 0xda \<and> ix b 2 = ch CHR ''[''
     \<and> ix b 3 = 0x01 \<and> ix b 4 = 0x00 \<and> ix b 5 = ch CHR '']''"

definition hasRAS :: "bytes \<Rightarrow> bool" where
  "hasRAS b \<longleftrightarrow> len b \<ge> 4 \<and> ix b 0 = 0x59 \<and> ix b 1 = 0xa6 \<and> ix b 2 = 0x6a \<and> ix b 3 = 0x95"

definition hasPCX :: "bytes \<Rightarrow> bool" where
  "hasPCX b \<longleftrightarrow> len b \<ge> 3 \<and> ix b 0 = 0x0a \<and> ix b 2 = 0x01"

definition isAVIFBrand :: "bytes \<Rightarrow> bool" where
  "isAVIFBrand b \<longleftrightarrow> len b \<ge> 4 \<and> ix b 0 = ch CHR ''a'' \<and> ix b 1 = ch CHR ''v''
     \<and> ix b 2 = ch CHR ''i'' \<and> (ix b 3 = ch CHR ''f'' \<or> ix b 3 = ch CHR ''s'')"

text \<open>The loop of \<open>ftypHasAVIF\<close> over the compatible brands, from index \<open>i\<close>.\<close>

function ftypHasAVIF_loop :: "bytes \<Rightarrow> nat \<Rightarrow> bool option" where
  "ftypHasAVIF_loop b i =
    (if i + 4 \<le> len b
     then (case reslice b i (i + 4) of
             None \<Rightarrow> None
           | Some brand \<Rightarrow> if isAVIFBrand brand then Some True else ftypHasAVIF_loop b (i + 4))
     else Some False)"
  by pat_completeness auto
termination
  by (relation "measure (\<lambda>(b, i). len b - i)") auto

declare ftypHasAVIF_loop.simps [simp del]

definition ftypHasAVIF :: "bytes \<Rightarrow> nat \<Rightarrow> bool option" where
  "ftypHasAVIF b header =
    (if len b < header + 8 then Some False
     else case reslice b header (header + 4) of
            None \<Rightarrow> None
          | Some brand \<Rightarrow> if isAVIFBrand brand then Some True
                          else ftypHasAVIF_loop b (header + 8))"

text \<open>The box walk of \<open>hasAVIFFtyp\<close>, from offset \<open>i\<close>. \<open>sz\<close> and \<open>header\<close> are the
  source's \<open>size\<close> and \<open>header\<close> after its \<open>switch size32\<close>; \<open>Some None\<close> is a \<open>return false\<close> inside that
  switch, \<open>None\<close> a panic.\<close>

function hasAVIFFtyp_loop :: "bytes \<Rightarrow> nat \<Rightarrow> bool option" where
  "hasAVIFFtyp_loop b i =
    (if i + 8 \<le> len b
     then (case Option.bind (reslice b i (i + 4)) (Uint32 bigEndian) of
        None \<Rightarrow> None
      | Some size32 \<Rightarrow>
         (case (if size32 = 1
                then (if i + 16 > len b then Some None
                      else (case Option.bind (reslice b (i + 8) (i + 16)) readUint64 of
                          None \<Rightarrow> None
                        | Some size64 \<Rightarrow>
                            if size64 < 16 \<or> size64 > of_nat (len b - i) then Some None
                            else Some (Some (unat size64, 16))))
                else if size32 = 0 then Some (Some (len b - i, 8))
                else Some (Some (unat size32, 8))) of
            None \<Rightarrow> None
          | Some None \<Rightarrow> Some False
          | Some (Some (sz, header)) \<Rightarrow>
              if sz < header then Some False
              else if i + sz > len b then Some False
              else if ix b (i + 4) = ch CHR ''f'' \<and> ix b (i + 5) = ch CHR ''t''
                      \<and> ix b (i + 6) = ch CHR ''y'' \<and> ix b (i + 7) = ch CHR ''p''
              then Option.bind (reslice b i (i + sz)) (\<lambda>box. ftypHasAVIF box header)
              else hasAVIFFtyp_loop b (i + sz)))
     else Some False)"
  by pat_completeness auto
termination
  by (relation "measure (\<lambda>(b, i). len b - i)") (auto split: if_splits option.splits)

declare hasAVIFFtyp_loop.simps [simp del]

definition hasAVIFFtyp :: "bytes \<Rightarrow> bool option" where
  "hasAVIFFtyp b = hasAVIFFtyp_loop b 0"

section \<open>Scanning helpers\<close>

text \<open>Each helper starts with \<open>_ = b[len(b)-1]\<close>, which panics on an empty slice.\<close>

definition is_space :: "byte \<Rightarrow> bool" where
  "is_space c \<longleftrightarrow> c = ch CHR '' '' \<or> c = 0x09 \<or> c = 0x0d \<or> c = 0x0a"

function skipSpace_loop :: "bytes \<Rightarrow> nat \<Rightarrow> nat" where
  "skipSpace_loop b j =
    (if j < len b then (if \<not> is_space (ix b j) then j else skipSpace_loop b (j + 1)) else j)"
  by pat_completeness auto
termination
  by (relation "measure (\<lambda>(b, j). len b - j)") auto

declare skipSpace_loop.simps [simp del]

definition skipSpace :: "bytes \<Rightarrow> nat \<Rightarrow> nat option" where
  "skipSpace b i = (if len b = 0 then None else Some (skipSpace_loop b i))"

function readNonSpace_loop :: "bytes \<Rightarrow> nat \<Rightarrow> nat" where
  "readNonSpace_loop b j =
    (if j < len b then (if is_space (ix b j) then j else readNonSpace_loop b (j + 1)) else j)"
  by pat_completeness auto
termination
  by (relation "measure (\<lambda>(b, j). len b - j)") auto

declare readNonSpace_loop.simps [simp del]

definition readNonSpace :: "bytes \<Rightarrow> nat \<Rightarrow> (bytes \<times> nat) option" where
  "readNonSpace b i =
    (if len b = 0 then None
     else let j = readNonSpace_loop b i
          in map_option (\<lambda>p. (p, j)) (reslice b i j))"

function readLine_loop :: "bytes \<Rightarrow> nat \<Rightarrow> nat" where
  "readLine_loop b j =
    (if j < len b then (if ix b j = 0x0a then j else readLine_loop b (j + 1)) else j)"
  by pat_completeness auto
termination
  by (relation "measure (\<lambda>(b, j). len b - j)") auto

declare readLine_loop.simps [simp del]

definition readLine :: "bytes \<Rightarrow> nat \<Rightarrow> (bytes \<times> nat) option" where
  "readLine b i =
    (if len b = 0 then None
     else let j = readLine_loop b i + 1
          in map_option (\<lambda>p. (p, j)) (reslice b i j))"

text \<open>\<open>x := uint32(b[j] - '0')\<close> subtracts in \<open>byte\<close> (wrapping) and then widens;
  \<open>n*10 + x\<close> wraps in \<open>uint32\<close>.\<close>

function parseUint32_loop :: "bytes \<Rightarrow> uint32 \<Rightarrow> nat \<Rightarrow> uint32 \<times> nat" where
  "parseUint32_loop b n j =
    (if j < len b
     then (let x = u32 (ix b j - ch CHR ''0'')
           in if x > 9 then (n, j) else parseUint32_loop b (n * 10 + x) (j + 1))
     else (n, j))"
  by pat_completeness auto
termination
  by (relation "measure (\<lambda>(b, n, j). len b - j)") auto

declare parseUint32_loop.simps [simp del]

definition parseUint32 :: "bytes \<Rightarrow> nat \<Rightarrow> (uint32 \<times> nat) option" where
  "parseUint32 b i = (if len b = 0 then None else Some (parseUint32_loop b 0 i))"

section \<open>Format parsers\<close>

text \<open>Every parser takes the \<open>Info\<close> it was handed (Go passes a pointer) and returns the
  updated one, or \<open>None\<close> when the source panics.\<close>

text \<open>\<open>jpeg\<close>: the segment walk from offset \<open>i\<close>. The first read of an iteration is
  \<open>b[i+3]\<close>; in the start-of-frame case the first read is \<open>b[i+4]\<close> at the advanced \<open>i\<close>.
  Neither is preceded by a length test.\<close>

function jpeg_loop :: "bytes \<Rightarrow> Info \<Rightarrow> nat \<Rightarrow> Info option" where
  "jpeg_loop b info i =
    (if \<not> i + 3 < len b then None
     else let length' = unat (ix b (i + 3)) OR push_bit 8 (unat (ix b (i + 2)));
              code = ix b (i + 1);
              marker = ix b i;
              i = i + 4
          in if marker \<noteq> 0xff then Some info
             else if code \<ge> 0xc0 \<and> code \<le> 0xc3
             then (if \<not> i + 4 < len b then None
                   else Some (info\<lparr>Type := JPEG,
                      Width := u32 (ix b (i + 4)) OR push_bit 8 (u32 (ix b (i + 3))),
                      Height := u32 (ix b (i + 2)) OR push_bit 8 (u32 (ix b (i + 1)))\<rparr>))
             else jpeg_loop b info (i + length' - 2))"
  by pat_completeness auto
termination
  by (relation "measure (\<lambda>(b, info, i). len b - i)") auto

declare jpeg_loop.simps [simp del]

definition jpeg :: "bytes \<Rightarrow> Info \<Rightarrow> Info option" where
  "jpeg b info = jpeg_loop b info 2"

definition webp :: "bytes \<Rightarrow> Info \<Rightarrow> Info option" where
  "webp b info =
    (if len b < 30 then Some info
     else if \<not> (ix b 12 = ch CHR ''V'' \<and> ix b 13 = ch CHR ''P'' \<and> ix b 14 = ch CHR ''8'')
     then Some info
     else let info =
            (if ix b 15 = ch CHR '' '' then
               info\<lparr>Width := push_bit 8 (u32 (ix b 27) AND 0x3f) OR u32 (ix b 26),
                    Height := push_bit 8 (u32 (ix b 29) AND 0x3f) OR u32 (ix b 28)\<rparr>
             else if ix b 15 = ch CHR ''L'' then
               info\<lparr>Width := ((push_bit 8 (u32 (ix b 22)) OR u32 (ix b 21)) AND 16383) + 1,
                    Height := ((push_bit 2 (u32 (ix b 23)) OR u32 (drop_bit 6 (ix b 22)))
                                 AND 16383) + 1\<rparr>
             else if ix b 15 = ch CHR ''X'' then
               info\<lparr>Width := (u32 (ix b 24) OR push_bit 8 (u32 (ix b 25))
                                 OR push_bit 16 (u32 (ix b 26))) + 1,
                    Height := (u32 (ix b 27) OR push_bit 8 (u32 (ix b 28))
                                 OR push_bit 16 (u32 (ix b 29))) + 1\<rparr>
             else info)
          in Some (if Width info \<noteq> 0 \<and> Height info \<noteq> 0 then info\<lparr>Type := WEBP\<rparr> else info))"

function avifDimensions_loop :: "bytes \<Rightarrow> nat \<Rightarrow> (uint32 \<times> uint32) option" where
  "avifDimensions_loop b i =
    (if i + 16 \<le> len b
     then (if ix b i \<noteq> ch CHR ''i'' \<or> ix b (i + 1) \<noteq> ch CHR ''s''
              \<or> ix b (i + 2) \<noteq> ch CHR ''p'' \<or> ix b (i + 3) \<noteq> ch CHR ''e''
           then avifDimensions_loop b (i + 1)
           else (case Option.bind (if i < 4 then None else reslice b (i - 4) i)
                        (Uint32 bigEndian) of
              None \<Rightarrow> None
            | Some size32 \<Rightarrow>
               if unat size32 < 20 then avifDimensions_loop b (i + 1)
               else if i - 4 + unat size32 > len b then avifDimensions_loop b (i + 1)
               else (case Option.bind (reslice b (i + 8) (i + 12)) (Uint32 bigEndian) of
                  None \<Rightarrow> None
                | Some width \<Rightarrow>
                   (case Option.bind (reslice b (i + 12) (i + 16)) (Uint32 bigEndian) of
                      None \<Rightarrow> None
                    | Some height \<Rightarrow>
                       if width \<noteq> 0 \<and> height \<noteq> 0 then Some (width, height)
                       else avifDimensions_loop b (i + 1)))))
     else Some (0, 0))"
  by pat_completeness auto
termination
  by (relation "measure (\<lambda>(b, i). len b - i)") auto

declare avifDimensions_loop.simps [simp del]

definition avifDimensions :: "bytes \<Rightarrow> (uint32 \<times> uint32) option" where
  "avifDimensions b = avifDimensions_loop b 4"

definition avif :: "bytes \<Rightarrow> Info \<Rightarrow> Info option" where
  "avif b info =
    (case avifDimensions b of
       None \<Rightarrow> None
     | Some (w, h) \<Rightarrow>
         let info = info\<lparr>Width := w, Height := h\<rparr>
         in Some (if Width info \<noteq> 0 \<and> Height info \<noteq> 0 then info\<lparr>Type := AVIF\<rparr> else info))"

text \<open>Four bytes at the given offsets as a \<open>uint32\<close>, most significant first: the
  source's \<open>uint32(b[k3])<<24 | uint32(b[k2])<<16 | uint32(b[k1])<<8 | uint32(b[k0])\<close>.\<close>

definition quad :: "bytes \<Rightarrow> nat \<Rightarrow> nat \<Rightarrow> nat \<Rightarrow> nat \<Rightarrow> uint32" where
  "quad b k3 k2 k1 k0 =
     push_bit 24 (u32 (ix b k3)) OR push_bit 16 (u32 (ix b k2)) OR push_bit 8 (u32 (ix b k1))
       OR u32 (ix b k0)"

definition png :: "bytes \<Rightarrow> Info \<Rightarrow> Info option" where
  "png b info =
    (if len b < 24 then Some info
     else let info =
            (if ix b 12 = ch CHR ''I'' \<and> ix b 13 = ch CHR ''H'' \<and> ix b 14 = ch CHR ''D''
                \<and> ix b 15 = ch CHR ''R''
             then info\<lparr>Width := quad b 16 17 18 19, Height := quad b 20 21 22 23\<rparr>
             else info)
          in Some (if Width info \<noteq> 0 \<and> Height info \<noteq> 0 then info\<lparr>Type := PNG\<rparr> else info))"

definition gif :: "bytes \<Rightarrow> Info \<Rightarrow> Info option" where
  "gif b info =
    (if len b < 12 then Some info
     else let info = info\<lparr>Width := push_bit 8 (u32 (ix b 7)) OR u32 (ix b 6),
                            Height := push_bit 8 (u32 (ix b 9)) OR u32 (ix b 8)\<rparr>
          in Some (if Width info \<noteq> 0 \<and> Height info \<noteq> 0 then info\<lparr>Type := GIF\<rparr> else info))"

definition bmp :: "bytes \<Rightarrow> Info \<Rightarrow> Info option" where
  "bmp b info =
    (if len b < 26 then Some info
     else let info = info\<lparr>Width := quad b 21 20 19 18, Height := quad b 25 24 23 22\<rparr>
          in Some (if Width info \<noteq> 0 \<and> Height info \<noteq> 0 then info\<lparr>Type := BMP\<rparr> else info))"

definition ppm :: "bytes \<Rightarrow> Info \<Rightarrow> Info option" where
  "ppm b info = do {
     c \<leftarrow> byte_at b 1;
     let info = (if c = ch CHR ''1'' then info\<lparr>Type := PBM\<rparr>
                 else if c = ch CHR ''2'' \<or> c = ch CHR ''5'' then info\<lparr>Type := PGM\<rparr>
                 else if c = ch CHR ''3'' \<or> c = ch CHR ''6'' then info\<lparr>Type := PPM\<rparr>
                 else if c = ch CHR ''4'' then info\<lparr>Type := BPM\<rparr>
                 else if c = ch CHR ''7'' then info\<lparr>Type := XV\<rparr>
                 else info);
     i \<leftarrow> skipSpace b 2;
     (w, i) \<leftarrow> parseUint32 b i;
     i \<leftarrow> skipSpace b i;
     (h, i) \<leftarrow> parseUint32 b i;
     let info = info\<lparr>Width := w, Height := h\<rparr>;
     Some (if Width info = 0 \<or> Height info = 0 then info\<lparr>Type := Unknown\<rparr> else info)
   }"

definition xbm :: "bytes \<Rightarrow> Info \<Rightarrow> Info option" where
  "xbm b info = do {
     (p, i) \<leftarrow> readNonSpace b 0;
     i \<leftarrow> skipSpace b i;
     (p, i) \<leftarrow> readNonSpace b i;
     i \<leftarrow> skipSpace b i;
     (w, i) \<leftarrow> parseUint32 b i;
     let info = info\<lparr>Width := w\<rparr>;
     i \<leftarrow> skipSpace b i;
     (p, i) \<leftarrow> readNonSpace b i;
     if \<not> (len p = 7 \<and> ix p 6 = ch CHR ''e'' \<and> ix p 0 = ch CHR ''#'' \<and> ix p 1 = ch CHR ''d''
            \<and> ix p 2 = ch CHR ''e'' \<and> ix p 3 = ch CHR ''f'' \<and> ix p 4 = ch CHR ''i''
            \<and> ix p 5 = ch CHR ''n'')
     then Some info
     else do {
       i \<leftarrow> skipSpace b i;
       (p, i) \<leftarrow> readNonSpace b i;
       i \<leftarrow> skipSpace b i;
       (h, i) \<leftarrow> parseUint32 b i;
       let info = info\<lparr>Height := h\<rparr>;
       Some (if Width info \<noteq> 0 \<and> Height info \<noteq> 0 then info\<lparr>Type := XBM\<rparr> else info)
     }
   }"

text \<open>\<open>xpm\<close>: the line loop, from offset \<open>i\<close>. \<open>line[j]\<close> is not preceded by a length
  test.\<close>

function xpm_loop :: "bytes \<Rightarrow> Info \<Rightarrow> nat \<Rightarrow> Info option" where
  "xpm_loop b info i =
    (case readLine b i of
       None \<Rightarrow> None
     | Some (line, i) \<Rightarrow>
         if len line = 0 then Some info
         else (case Option.bind (skipSpace line 0) (\<lambda>j. map_option (\<lambda>c. (j, c)) (byte_at line j)) of
            None \<Rightarrow> None
          | Some (j, c) \<Rightarrow>
             if c \<noteq> ch CHR 0x22 then xpm_loop b info i
             else do {
               (w, j) \<leftarrow> parseUint32 line (j + 1);
               j \<leftarrow> skipSpace line j;
               (h, j) \<leftarrow> parseUint32 line j;
               Some (info\<lparr>Width := w, Height := h\<rparr>)
             }))"
  by pat_completeness auto
termination
proof (relation "measure (\<lambda>(b, info, i). cap b + 1 - i)")
  show "wf (measure (\<lambda>(b, info, i). cap b + 1 - i))"
    by simp
next
  fix b :: bytes and info :: Info and i :: nat and x2 line j y x2a k c
  assume rl: "readLine b i = Some x2" and x2: "(line, j) = x2"
  have ge: "m \<le> readLine_loop b m" for m
  proof (induction b m rule: readLine_loop.induct)
    case (1 b m)
    show ?case
    proof (cases "m < len b \<and> ix b m \<noteq> 0x0a")
      case True
      then have "readLine_loop b m = readLine_loop b (m + 1)"
        by (subst readLine_loop.simps) simp
      moreover from 1 True have "m + 1 \<le> readLine_loop b (m + 1)"
        by simp
      ultimately show ?thesis
        by simp
    next
      case False
      then have "readLine_loop b m = m"
        by (subst readLine_loop.simps) auto
      then show ?thesis
        by simp
    qed
  qed
  from rl x2 ge [of i] have "i < j \<and> j \<le> cap b"
    by (auto simp: readLine_def reslice_def Let_def split: if_splits)
  then show "((b, info, j), b, info, i) \<in> measure (\<lambda>(b, info, i). cap b + 1 - i)"
    by auto
qed

declare xpm_loop.simps [simp del]

definition xpm :: "bytes \<Rightarrow> Info \<Rightarrow> Info option" where
  "xpm b info =
    map_option (\<lambda>info. if Width info \<noteq> 0 \<and> Height info \<noteq> 0 then info\<lparr>Type := XPM\<rparr> else info)
      (xpm_loop b info 0)"

text \<open>\<open>tiff\<close>: the directory loop. \<open>n\<close> is the entry count read before the loop,
  \<open>dtype\<close> is the source's \<open>datatype\<close>; the \<open>default\<close> case of its switch returns.\<close>

function tiff_loop :: "bytes \<Rightarrow> Info \<Rightarrow> byteOrder \<Rightarrow> nat \<Rightarrow> nat \<Rightarrow> Info option" where
  "tiff_loop b info order n i =
    (if i < n * 12
     then (case Option.bind (reslice b i (i + 2)) (Uint16 order) of
        None \<Rightarrow> None
      | Some tag \<Rightarrow>
         (case Option.bind (reslice b (i + 2) (i + 4)) (Uint16 order) of
            None \<Rightarrow> None
          | Some dtype \<Rightarrow>
             (case (if dtype = 1 \<or> dtype = 6
                    then map_option (\<lambda>c. Some (u32 c)) (byte_at b (i + 9))
                    else if dtype = 3 \<or> dtype = 8
                    then map_option (\<lambda>v. Some (ucast v))
                           (Option.bind (reslice b (i + 8) (i + 10)) (Uint16 order))
                    else if dtype = 4 \<or> dtype = 9
                    then map_option Some (Option.bind (reslice b (i + 8) (i + 12)) (Uint32 order))
                    else Some None) of
                None \<Rightarrow> None
              | Some None \<Rightarrow> Some info
              | Some (Some v) \<Rightarrow>
                 let info = (if tag = 256 then info\<lparr>Width := v\<rparr>
                             else if tag = 257 then info\<lparr>Height := v\<rparr>
                             else info)
                 in if Width info > 0 \<and> Height info > 0 then Some (info\<lparr>Type := TIFF\<rparr>)
                    else tiff_loop b info order n (i + 12))))
     else Some info)"
  by pat_completeness auto
termination
  by (relation "measure (\<lambda>(b, info, order, n, i). n * 12 - i)") auto

declare tiff_loop.simps [simp del]

definition tiff :: "bytes \<Rightarrow> Info \<Rightarrow> byteOrder \<Rightarrow> Info option" where
  "tiff b info order = do {
     off \<leftarrow> Option.bind (reslice b 4 8) (Uint32 order);
     let i = unat off;
     n \<leftarrow> Option.bind (reslice b (i + 2) (i + 4)) (Uint16 order);
     tiff_loop b info order (unat n) (i + 2)
   }"

definition psd :: "bytes \<Rightarrow> Info \<Rightarrow> Info option" where
  "psd b info =
    (if len b < 22 then Some info
     else let info = info\<lparr>Width := quad b 18 19 20 21, Height := quad b 14 15 16 17\<rparr>
          in Some (if Width info \<noteq> 0 \<and> Height info \<noteq> 0 then info\<lparr>Type := PSD\<rparr> else info))"

definition mng :: "bytes \<Rightarrow> Info \<Rightarrow> Info option" where
  "mng b info =
    (if len b < 24 then Some info
     else if \<not> (ix b 12 = ch CHR ''M'' \<and> ix b 13 = ch CHR ''H'' \<and> ix b 14 = ch CHR ''D''
                 \<and> ix b 15 = ch CHR ''R'')
     then Some info
     else let info = info\<lparr>Width := quad b 16 17 18 19, Height := quad b 20 21 22 23\<rparr>
          in Some (if Width info \<noteq> 0 \<and> Height info \<noteq> 0 then info\<lparr>Type := MNG\<rparr> else info))"

definition rgb :: "bytes \<Rightarrow> Info \<Rightarrow> Info option" where
  "rgb b info =
    (if len b < 10 then Some info
     else let info = info\<lparr>Width := push_bit 8 (u32 (ix b 6)) OR u32 (ix b 7),
                            Height := push_bit 8 (u32 (ix b 8)) OR u32 (ix b 9)\<rparr>
          in Some (if Width info \<noteq> 0 \<and> Height info \<noteq> 0 then info\<lparr>Type := RGB\<rparr> else info))"

definition ras :: "bytes \<Rightarrow> Info \<Rightarrow> Info option" where
  "ras b info =
    (if len b < 12 then Some info
     else let info = info\<lparr>Width := quad b 4 5 6 7, Height := quad b 8 9 10 11\<rparr>
          in Some (if Width info \<noteq> 0 \<and> Height info \<noteq> 0 then info\<lparr>Type := RAS\<rparr> else info))"

definition pcx :: "bytes \<Rightarrow> Info \<Rightarrow> Info option" where
  "pcx b info =
    (if len b < 12 then Some info
     else let info = info\<lparr>
              Width := 1 + (push_bit 8 (u32 (ix b 9)) OR u32 (ix b 8))
                         - (push_bit 8 (u32 (ix b 5)) OR u32 (ix b 4)),
              Height := 1 + (push_bit 8 (u32 (ix b 11)) OR u32 (ix b 10))
                          - (push_bit 8 (u32 (ix b 7)) OR u32 (ix b 6))\<rparr>
          in Some (if Width info \<noteq> 0 \<and> Height info \<noteq> 0 then info\<lparr>Type := PCX\<rparr> else info))"

section \<open>The header sniffer: GetType and GetInfo\<close>

text \<open>Both return \<open>None\<close> when the source panics. The cases of the \<open>switch\<close> are tried in
  the source's order; \<open>hasAVIFFtyp\<close> is the last one.\<close>

definition minOffset :: nat where
  "minOffset = 80"

definition GetType :: "bytes \<Rightarrow> Type option" where
  "GetType p =
    (if len p < minOffset then Some Unknown
     else if hasJPEG p then Some JPEG
     else if hasPNG p then Some PNG
     else if hasWEBP p then Some WEBP
     else if hasGIF p then Some GIF
     else if hasBMP p then Some BMP
     else if hasPPM p then Some PPM
     else if hasXBM p then Some XBM
     else if hasXPM p then Some XPM
     else if hasTIFFBig p then Some TIFF
     else if hasTIFFLittle p then Some TIFF
     else if hasPSD p then Some PSD
     else if hasMNG p then Some MNG
     else if hasRGB p then Some RGB
     else if hasRAS p then Some RAS
     else if hasPCX p then Some PCX
     else map_option (\<lambda>found. if found then AVIF else Unknown) (hasAVIFFtyp p))"

definition GetInfo :: "bytes \<Rightarrow> Info option" where
  "GetInfo p =
    (let info = zero_Info
     in if len p < minOffset then Some info
        else if hasJPEG p then jpeg p info
        else if hasPNG p then png p info
        else if hasWEBP p then webp p info
        else if hasGIF p then gif p info
        else if hasBMP p then bmp p info
        else if hasPPM p then ppm p info
        else if hasXBM p then xbm p info
        else if hasXPM p then xpm p info
        else if hasTIFFBig p then tiff p info bigEndian
        else if hasTIFFLittle p then tiff p info littleEndian
        else if hasPSD p then psd p info
        else if hasMNG p then mng p info
        else if hasRGB p then rgb p info
        else if hasRAS p then ras p info
        else if hasPCX p then pcx p info
        else (case hasAVIFFtyp p of
                None \<Rightarrow> None
              | Some found \<Rightarrow> if found then avif p info else Some info))"

section \<open>Option normalization (normalizeHTTPImageOptions)\<close>

text \<open>
  The three default constants of the HTTP helper and the options struct.
  Go's \<open>int\<close> fields are modelled as \<open>int\<close>: the function only compares and copies
  them, so no arithmetic can overflow.
\<close>

definition CONCURRENT_REQUESTS_FOR_REUSABLE_CONNECTIONS_DEFAULT :: int where
  "CONCURRENT_REQUESTS_FOR_REUSABLE_CONNECTIONS_DEFAULT = 20"

definition CONCURRENT_REQUESTS_FOR_NON_REUSABLE_CONNECTIONS_DEFAULT :: int where
  "CONCURRENT_REQUESTS_FOR_NON_REUSABLE_CONNECTIONS_DEFAULT = 5"

definition MAX_CONCURRENT_CONNECTIONS_GLOBAL_DEFAULT :: int where
  "MAX_CONCURRENT_CONNECTIONS_GLOBAL_DEFAULT = 50"

record GetHTTPImageOptions =
  ConcurrentRequestsReusable :: int
  ConcurrentRequestsNonReusable :: int
  MaxConcurrentConnections :: int

definition normalizeHTTPImageOptions :: "GetHTTPImageOptions \<Rightarrow> GetHTTPImageOptions" where
  "normalizeHTTPImageOptions options =
    (let options = (if ConcurrentRequestsReusable options < 1
                    then options\<lparr>ConcurrentRequestsReusable :=
                           CONCURRENT_REQUESTS_FOR_REUSABLE_CONNECTIONS_DEFAULT\<rparr>
                    else options);
         options = (if ConcurrentRequestsNonReusable options < 1
                    then options\<lparr>ConcurrentRequestsNonReusable :=
                           CONCURRENT_REQUESTS_FOR_NON_REUSABLE_CONNECTIONS_DEFAULT\<rparr>
                    else options);
         options = (if MaxConcurrentConnections options < 1
                    then options\<lparr>MaxConcurrentConnections :=
                           MAX_CONCURRENT_CONNECTIONS_GLOBAL_DEFAULT\<rparr>
                    else options);
         options = (if ConcurrentRequestsReusable options < ConcurrentRequestsNonReusable options
                    then options\<lparr>ConcurrentRequestsReusable :=
                           ConcurrentRequestsNonReusable options\<rparr>
                    else options)
     in options)"

section \<open>Errors, requests and responses\<close>

text \<open>
  \<open>time.Duration\<close> is an \<open>int64\<close> count of nanoseconds. The error values of the package
  are the three structs of \<open>errors.go\<close> and \<open>*url.Error\<close>; \<open>Canceled\<close> and
  \<open>DeadlineExceeded\<close> are the two values of \<open>ctx.Err()\<close>; \<open>ExternalError\<close> stands for
  any other error that \<open>net/http\<close>, \<open>net/url\<close> or \<open>io\<close> hands back.
\<close>

type_synonym Duration = int

datatype error =
    URLError string string string
  | HTTPStatusError string int string
  | RetryAfterError string int string Duration
  | InsufficientBytesError string int int
  | Canceled
  | DeadlineExceeded
  | ExternalError string

text \<open>The fields of \<open>*url.URL\<close> that the package reads, with the results of its methods
  \<open>Port()\<close> and \<open>Hostname()\<close>.\<close>

record url_URL =
  Scheme :: string
  Host :: string
  Port :: string
  Hostname :: string

text \<open>A request is a GET of \<open>req_URL\<close> with the header \<open>Range: bytes=0-<Range_last>\<close>.\<close>

record Request =
  req_URL :: string
  Range_last :: int

text \<open>
  A response: status code and text, the value of its \<open>Retry-After\<close> header (empty when
  absent) and its body stream, which delivers \<open>Body\<close> and then ends with end-of-file or,
  when \<open>BodyErr\<close> is set, with that error. \<open>Spare\<close> is the unused capacity of the buffer
  that \<open>io.ReadAll\<close> returns.
\<close>

record Response =
  StatusCode :: int
  Status :: string
  RetryAfter :: string
  Body :: "byte list"
  BodyErr :: "error option"
  Spare :: "byte list"

text \<open>\<open>io.ReadAll(io.LimitReader(resp.Body, n))\<close>: the reader stops after \<open>n\<close> bytes
  without touching the stream again, so an error of the stream is seen only when fewer
  than \<open>n\<close> bytes precede it.\<close>

definition ReadAll_LimitReader :: "Response \<Rightarrow> int \<Rightarrow> error + bytes" where
  "ReadAll_LimitReader resp n =
    (if n \<le> int (length (Body resp)) then Inr (Slice (take (nat n) (Body resp)) (Spare resp))
     else case BodyErr resp of
            Some err \<Rightarrow> Inl err
          | None \<Rightarrow> Inr (Slice (Body resp) (Spare resp)))"

record GetHTTPImageResult =
  URL :: string
  Info :: Info
  Error :: "error option"

record item =
  index :: nat
  rawURL :: string

section \<open>Channels used as semaphores\<close>

text \<open>
  A \<open>chan struct{}\<close> made with capacity \<open>capacity\<close> (an \<open>int\<close>) and holding \<open>count\<close>
  elements. A send
  can proceed when the buffer is not full, a receive when it is not empty.

  A \<open>select\<close> statement picks one of its ready cases at random and blocks while none is
  ready. What a goroutine observes at a \<open>select\<close> comes from the environment: the value
  of \<open>ctx.Err()\<close> if \<open>ctx.Done()\<close> is (or becomes) ready, and a number that breaks the
  tie between ready cases. \<open>None\<close> is a \<open>select\<close> that never returns.
\<close>

record chan =
  capacity :: int
  count :: nat

definition make_chan :: "int \<Rightarrow> chan" where
  "make_chan n = \<lparr>capacity = n, count = 0\<rparr>"

datatype select_case = SendLimiter | SendBase | SendExtra | CtxDone error

type_synonym observation = "error option \<times> nat"

definition can_send :: "chan \<Rightarrow> bool" where
  "can_send c \<longleftrightarrow> int (count c) < capacity c"

definition send :: "chan \<Rightarrow> chan" where
  "send c = c\<lparr>count := count c + 1\<rparr>"

definition done_cases :: "observation \<Rightarrow> select_case list" where
  "done_cases obs = (case fst obs of Some err \<Rightarrow> [CtxDone err] | None \<Rightarrow> [])"

definition select :: "select_case list \<Rightarrow> observation \<Rightarrow> select_case option" where
  "select ready obs = (if ready = [] then None else Some (ready ! (snd obs mod length ready)))"

definition acquire :: "observation \<Rightarrow> chan \<Rightarrow> (error option \<times> chan) option" where
  "acquire obs limiter =
    (case select ((if can_send limiter then [SendLimiter] else []) @ done_cases obs) obs of
       None \<Rightarrow> None
     | Some (CtxDone err) \<Rightarrow> Some (Some err, limiter)
     | Some _ \<Rightarrow> Some (None, send limiter))"

definition release :: "chan \<Rightarrow> chan option" where
  "release limiter =
    (if count limiter > 0 then Some (limiter\<lparr>count := count limiter - 1\<rparr>) else None)"

section \<open>The per-origin limiter\<close>

text \<open>\<open>extra\<close> is \<open>None\<close> for the nil channel. The function value that
  \<open>originLimiter.acquire\<close> returns receives from \<open>base\<close> or from \<open>extra\<close>; it is
  represented by the tier it releases.\<close>

record originLimiter =
  base :: chan
  extra :: "chan option"
  rangeSupported :: bool

datatype tier = BaseTier | ExtraTier

definition newOriginLimiter :: "int \<Rightarrow> int \<Rightarrow> originLimiter" where
  "newOriginLimiter nonReusableLimit reusableLimit =
    (let nonReusableLimit = (if nonReusableLimit < 1 then 1 else nonReusableLimit);
         reusableLimit = (if reusableLimit < nonReusableLimit then nonReusableLimit
                          else reusableLimit);
         extra = reusableLimit - nonReusableLimit;
         extraChan = (if extra > 0 then Some (make_chan extra) else None)
     in \<lparr>base = make_chan nonReusableLimit, extra = extraChan, rangeSupported = False\<rparr>)"

definition enableReusable :: "originLimiter \<Rightarrow> originLimiter" where
  "enableReusable l = l\<lparr>rangeSupported := True\<rparr>"

definition originLimiter_acquire ::
  "observation \<Rightarrow> originLimiter \<Rightarrow> ((error + tier) \<times> originLimiter) option" where
  "originLimiter_acquire obs l =
    (if rangeSupported l \<and> extra l \<noteq> None
     then (case select ((if can_send (base l) then [SendBase] else [])
                        @ (if can_send (the (extra l)) then [SendExtra] else [])
                        @ done_cases obs) obs of
             None \<Rightarrow> None
           | Some (CtxDone err) \<Rightarrow> Some (Inl err, l)
           | Some SendExtra \<Rightarrow> Some (Inr ExtraTier, l\<lparr>extra := Some (send (the (extra l)))\<rparr>)
           | Some _ \<Rightarrow> Some (Inr BaseTier, l\<lparr>base := send (base l)\<rparr>))
     else (case select ((if can_send (base l) then [SendBase] else []) @ done_cases obs) obs of
             None \<Rightarrow> None
           | Some (CtxDone err) \<Rightarrow> Some (Inl err, l)
           | Some _ \<Rightarrow> Some (Inr BaseTier, l\<lparr>base := send (base l)\<rparr>)))"

definition releaseOrigin :: "tier \<Rightarrow> originLimiter \<Rightarrow> originLimiter option" where
  "releaseOrigin t l =
    (case t of
       BaseTier \<Rightarrow> map_option (\<lambda>c. l\<lparr>base := c\<rparr>) (release (base l))
     | ExtraTier \<Rightarrow> (case extra l of
                       None \<Rightarrow> None
                     | Some c \<Rightarrow> map_option (\<lambda>c. l\<lparr>extra := Some c\<rparr>) (release c)))"

section \<open>The environment of a probe\<close>

text \<open>
  Everything outside the package is a parameter: the standard-library functions it
  calls, the servers, the clock, the context and the Go scheduler. \<open>'w\<close> is the state of
  that outside world; a call that talks to it returns the next state.
  \<^item> \<open>url_Parse\<close>, \<open>TrimSpace\<close>, \<open>Atoi\<close>: \<open>url.Parse\<close>, \<open>strings.TrimSpace\<close>, \<open>strconv.Atoi\<close>;
  \<^item> \<open>NewRequestWithContext\<close>: the error of \<open>http.NewRequestWithContext\<close>, if any;
  \<^item> \<open>Do\<close>: \<open>client.Do\<close>;
  \<^item> \<open>ParseTime_Until\<close>: \<open>time.Until\<close> of the result of \<open>http.ParseTime\<close>, \<open>None\<close> when
    the header is not an HTTP date;
  \<^item> \<open>timer_or_Done\<close>: which of the timer and \<open>ctx.Done()\<close> fires first in
    \<open>sleepWithContext\<close> (\<open>None\<close> for the timer, otherwise \<open>ctx.Err()\<close>);
  \<^item> \<open>observe\<close>: what a goroutine observes at a \<open>select\<close>;
  \<^item> \<open>next_goroutine\<close>: the scheduler's choice among the goroutines that have not run
    yet, as a number.
\<close>

record 'w Env =
  url_Parse :: "string \<Rightarrow> error + url_URL"
  TrimSpace :: "string \<Rightarrow> string"
  Atoi :: "string \<Rightarrow> int option"
  NewRequestWithContext :: "string \<Rightarrow> error option"
  Do :: "'w \<Rightarrow> Request \<Rightarrow> (error + Response) \<times> 'w"
  ParseTime_Until :: "'w \<Rightarrow> string \<Rightarrow> Duration option"
  timer_or_Done :: "'w \<Rightarrow> Duration \<Rightarrow> error option \<times> 'w"
  observe :: "'w \<Rightarrow> observation \<times> 'w"
  next_goroutine :: "'w \<Rightarrow> nat \<times> 'w"

text \<open>What a task can see and change: the world, the trace of its effects (requests
  sent, timers set), the global limiter and the limiter of the task's origin.\<close>

datatype event = Requested Request | Slept Duration

record 'w state =
  world :: 'w
  events :: "event list"
  globalLimiter :: chan
  limiter :: originLimiter

text \<open>A call that does not return: the sniffer panicked on the given data, another
  run-time panic, or a channel operation that blocks forever.\<close>

datatype abort = SnifferPanic bytes | RuntimePanic | Blocked

section \<open>One request: fetchImageInfoOnce\<close>

text \<open>\<open>time.Duration(seconds) * time.Second\<close> is an \<open>int64\<close> product and wraps.\<close>

definition wrap_int64 :: "int \<Rightarrow> int" where
  "wrap_int64 x = sint (word_of_int x :: 64 word)"

definition Second :: Duration where
  "Second = 1000000000"

definition parseRetryAfter :: "'w Env \<Rightarrow> 'w \<Rightarrow> string \<Rightarrow> Duration \<times> bool" where
  "parseRetryAfter env w header =
    (let v = TrimSpace env header
     in if v = [] then (0, False)
        else case Atoi env v of
          Some seconds \<Rightarrow>
            if seconds \<le> 0 then (0, False) else (wrap_int64 (seconds * Second), True)
        | None \<Rightarrow>
           (case ParseTime_Until env w v of
              Some wait \<Rightarrow> if wait \<le> 0 then (0, False) else (wait, True)
            | None \<Rightarrow> (0, False)))"

text \<open>The result is the source's tuple \<open>(Info, time.Duration, error, bool, int)\<close>:
  info, retry-after wait, error, need-more flag, bytes read.\<close>

definition fetchImageInfoOnce ::
  "'w Env \<Rightarrow> string \<Rightarrow> int \<Rightarrow> 'w state
     \<Rightarrow> abort + ((Info \<times> Duration \<times> error option \<times> bool \<times> int) \<times> 'w state)" where
  "fetchImageInfoOnce env url minBytes st =
    (let info = zero_Info
     in case NewRequestWithContext env url of
       Some err \<Rightarrow> Inr ((info, 0, Some err, False, 0), st)
     | None \<Rightarrow>
        let req = \<lparr>req_URL = url, Range_last = minBytes - 1\<rparr>;
            (r, w) = Do env (world st) req;
            st = st\<lparr>world := w, events := events st @ [Requested req]\<rparr>
        in case r of
          Inl err \<Rightarrow> Inr ((info, 0, Some err, False, 0), st)
        | Inr resp \<Rightarrow>
           if (StatusCode resp = 429 \<or> StatusCode resp = 503)
              \<and> snd (parseRetryAfter env (world st) (RetryAfter resp))
           then Inr ((info, fst (parseRetryAfter env (world st) (RetryAfter resp)),
                      Some (RetryAfterError url (StatusCode resp) (Status resp)
                              (fst (parseRetryAfter env (world st) (RetryAfter resp)))),
                      False, 0), st)
           else
             let st = (if StatusCode resp = 206 then st\<lparr>limiter := enableReusable (limiter st)\<rparr>
                       else st)
             in if StatusCode resp \<noteq> 200 \<and> StatusCode resp \<noteq> 206
                then Inr ((info, 0, Some (HTTPStatusError url (StatusCode resp) (Status resp)),
                           False, 0), st)
                else case ReadAll_LimitReader resp minBytes of
                  Inl err \<Rightarrow> Inr ((info, 0, Some err, False, 0), st)
                | Inr data \<Rightarrow>
                   let readBytes = int (len data)
                   in if readBytes < 80
                      then Inr ((info, 0, Some (InsufficientBytesError [] readBytes 80), False,
                                 readBytes), st)
                      else case GetInfo data of
                        None \<Rightarrow> Inl (SnifferPanic data)
                      | Some info \<Rightarrow>
                         if Type info = Unknown \<or> Width info = 0 \<or> Height info = 0
                         then Inr ((info, 0, None, True, readBytes), st)
                         else Inr ((info, 0, None, False, readBytes), st))"

section \<open>The progressive fetcher and the retry policy\<close>

text \<open>The loop of \<open>fetchImageInfoProgressive\<close> over the remaining budgets, with the
  source's variables \<open>info\<close>, \<open>lastErr\<close> and \<open>lastRead\<close>; the empty list is the code
  after the loop. The result is \<open>(Info, time.Duration, error)\<close>.\<close>

fun fetchImageInfoProgressive_loop ::
  "'w Env \<Rightarrow> string \<Rightarrow> int list \<Rightarrow> Info \<Rightarrow> error option \<Rightarrow> int \<Rightarrow> 'w state
     \<Rightarrow> abort + ((Info \<times> Duration \<times> error option) \<times> 'w state)" where
  "fetchImageInfoProgressive_loop env url [] info lastErr lastRead st =
     Inr ((info, 0, (if lastErr = None then Some (InsufficientBytesError [] lastRead 80)
                     else lastErr)), st)"
| "fetchImageInfoProgressive_loop env url (sz # sizes) info lastErr lastRead st =
    (if sz < 80 then fetchImageInfoProgressive_loop env url sizes info lastErr lastRead st
     else case fetchImageInfoOnce env url sz st of
       Inl a \<Rightarrow> Inl a
     | Inr ((info, retryAfter, lastErr, needMore, readBytes), st) \<Rightarrow>
        let lastRead = (if readBytes > 0 then readBytes else lastRead)
        in if retryAfter > 0 then Inr ((info, retryAfter, lastErr), st)
           else if lastErr \<noteq> None then Inr ((info, 0, lastErr), st)
           else if \<not> needMore then Inr ((info, 0, None), st)
           else fetchImageInfoProgressive_loop env url sizes info lastErr lastRead st)"

definition fetchImageInfoProgressive ::
  "'w Env \<Rightarrow> string \<Rightarrow> int list \<Rightarrow> 'w state
     \<Rightarrow> abort + ((Info \<times> Duration \<times> error option) \<times> 'w state)" where
  "fetchImageInfoProgressive env url sizes st =
     fetchImageInfoProgressive_loop env url sizes zero_Info None 0 st"

definition sleepWithContext :: "'w Env \<Rightarrow> Duration \<Rightarrow> 'w state \<Rightarrow> error option \<times> 'w state" where
  "sleepWithContext env d st =
    (let (r, w) = timer_or_Done env (world st) d
     in (r, st\<lparr>world := w, events := events st @ [Slept d]\<rparr>))"

text \<open>The loop of \<open>fetchImageInfoWithRetry\<close> from the given \<open>attempt\<close>; the result is
  \<open>(Info, error)\<close>.\<close>

function fetchImageInfoWithRetry_loop ::
  "'w Env \<Rightarrow> string \<Rightarrow> int list \<Rightarrow> nat \<Rightarrow> Info \<Rightarrow> error option \<Rightarrow> 'w state
     \<Rightarrow> abort + ((Info \<times> error option) \<times> 'w state)" where
  "fetchImageInfoWithRetry_loop env url sizes attempt info lastErr st =
    (if attempt < 2
     then (case fetchImageInfoProgressive env url sizes st of
        Inl a \<Rightarrow> Inl a
      | Inr ((info, retryAfter, lastErr), st) \<Rightarrow>
         if lastErr = None then Inr ((info, None), st)
         else if retryAfter \<le> 0 \<or> attempt = 1 then Inr ((info, lastErr), st)
         else (case sleepWithContext env retryAfter st of
                 (Some err, st) \<Rightarrow> Inr ((info, Some err), st)
               | (None, st) \<Rightarrow>
                   fetchImageInfoWithRetry_loop env url sizes (attempt + 1) info lastErr st))
     else Inr ((info, lastErr), st))"
  by pat_completeness auto
termination
  by (relation "measure (\<lambda>(env, url, sizes, attempt, info, lastErr, st). 2 - attempt)") auto

declare fetchImageInfoWithRetry_loop.simps [simp del]

definition fetchImageInfoWithRetry ::
  "'w Env \<Rightarrow> string \<Rightarrow> int list \<Rightarrow> 'w state \<Rightarrow> abort + ((Info \<times> error option) \<times> 'w state)" where
  "fetchImageInfoWithRetry env url sizes st =
     fetchImageInfoWithRetry_loop env url sizes 0 zero_Info None st"

section \<open>One task: fetchImageInfo\<close>

text \<open>The two deferred calls run in reverse order of their \<open>defer\<close> statements:
  \<open>release(globalLimiter)\<close> first, then \<open>releaseOrigin()\<close>.\<close>

definition observe_select :: "'w Env \<Rightarrow> 'w state \<Rightarrow> observation \<times> 'w state" where
  "observe_select env st = (let (obs, w) = observe env (world st) in (obs, st\<lparr>world := w\<rparr>))"

definition fetchImageInfo ::
  "'w Env \<Rightarrow> string \<Rightarrow> int list \<Rightarrow> 'w state \<Rightarrow> abort + ((Info \<times> error option) \<times> 'w state)" where
  "fetchImageInfo env url sizes st =
    (let info = zero_Info;
         (obs, st) = observe_select env st
     in case acquire obs (globalLimiter st) of
       None \<Rightarrow> Inl Blocked
     | Some (Some err, g) \<Rightarrow> Inr ((info, Some err), st\<lparr>globalLimiter := g\<rparr>)
     | Some (None, g) \<Rightarrow>
        let st = st\<lparr>globalLimiter := g\<rparr>;
            (obs, st) = observe_select env st
        in case originLimiter_acquire obs (limiter st) of
          None \<Rightarrow> Inl Blocked
        | Some (Inl err, l) \<Rightarrow>
           (case release (globalLimiter st) of
              None \<Rightarrow> Inl Blocked
            | Some g \<Rightarrow> Inr ((info, Some err), st\<lparr>globalLimiter := g, limiter := l\<rparr>))
        | Some (Inr t, l) \<Rightarrow>
           (case fetchImageInfoWithRetry env url sizes (st\<lparr>limiter := l\<rparr>) of
              Inl a \<Rightarrow> Inl a
            | Inr (r, st) \<Rightarrow>
               (case release (globalLimiter st) of
                  None \<Rightarrow> Inl Blocked
                | Some g \<Rightarrow>
                   (case releaseOrigin t (limiter st) of
                      None \<Rightarrow> Inl Blocked
                    | Some l \<Rightarrow> Inr (r, st\<lparr>globalLimiter := g, limiter := l\<rparr>)))))"

section \<open>The batch: GetHTTPImageDataWithOptions\<close>

definition normalizeOriginHost :: "url_URL \<Rightarrow> string" where
  "normalizeOriginHost u =
    (let host = Host u; port = Port u
     in if port = [] then host
        else if ((Scheme u = ''https'' \<and> port = ''443'') \<or> (Scheme u = ''http'' \<and> port = ''80''))
                \<and> Hostname u \<noteq> []
        then Hostname u
        else host)"

text \<open>The first loop over \<open>urls\<close>, from position \<open>i\<close>: it fills \<open>results[i].URL\<close>, records a
  parse error or files the URL under its origin. \<open>originGroups\<close> is a map, \<open>origins\<close> the
  keys in the order they were first seen.\<close>

fun parse_loop ::
  "'w Env \<Rightarrow> string list \<Rightarrow> nat \<Rightarrow> GetHTTPImageResult list \<Rightarrow> (string \<rightharpoonup> item list)
     \<Rightarrow> string list \<Rightarrow> GetHTTPImageResult list \<times> (string \<rightharpoonup> item list) \<times> string list" where
  "parse_loop env [] i results originGroups origins = (results, originGroups, origins)"
| "parse_loop env (u # urls) i results originGroups origins =
    (let results = results[i := (results ! i)\<lparr>URL := u\<rparr>]
     in case (case url_Parse env u of
                Inl err \<Rightarrow> Inl err
              | Inr parsed \<Rightarrow> if Scheme parsed = [] \<or> Host parsed = []
                              then Inl (URLError ''parse'' u ''invalid URL'')
                              else Inr parsed) of
       Inl err \<Rightarrow>
         parse_loop env urls (i + 1) (results[i := (results ! i)\<lparr>Error := Some err\<rparr>])
           originGroups origins
     | Inr parsed \<Rightarrow>
         let host = normalizeOriginHost parsed;
             origin = Scheme parsed @ ''://'' @ host;
             origins = (if originGroups origin = None then origins @ [origin] else origins);
             originGroups = originGroups(origin \<mapsto>
                 (case originGroups origin of None \<Rightarrow> [] | Some g \<Rightarrow> g)
                   @ [\<lparr>index = i, rawURL = u\<rparr>])
         in parse_loop env urls (i + 1) results originGroups origins)"

text \<open>The state the goroutines share: the world and its trace, the global limiter, one
  limiter per origin (\<open>originWorkers\<close>) and the \<open>results\<close> slice.\<close>

record 'w batch =
  b_world :: 'w
  b_events :: "event list"
  b_global :: chan
  b_workers :: "string \<rightharpoonup> originLimiter"
  b_results :: "GetHTTPImageResult list"

text \<open>The goroutine of one item, run to completion: a task is the item and the origin
  whose worker it was given. A missing worker is a nil limiter, and a write outside
  \<open>results\<close> an index out of range.\<close>

definition run_task :: "'w Env \<Rightarrow> int list \<Rightarrow> item \<times> string \<Rightarrow> 'w batch \<Rightarrow> abort + 'w batch" where
  "run_task env sizes task bs =
    (let it = fst task
     in case b_workers bs (snd task) of
       None \<Rightarrow> Inl RuntimePanic
     | Some l \<Rightarrow>
        (case fetchImageInfo env (rawURL it) sizes
                \<lparr>world = b_world bs, events = b_events bs, globalLimiter = b_global bs,
                 limiter = l\<rparr> of
           Inl a \<Rightarrow> Inl a
         | Inr ((info, err), st) \<Rightarrow>
            if \<not> index it < length (b_results bs) then Inl RuntimePanic
            else Inr \<lparr>b_world = world st, b_events = events st, b_global = globalLimiter st,
                      b_workers = (b_workers bs)(snd task \<mapsto> limiter st),
                      b_results = (b_results bs)[index it :=
                         (case err of
                            Some e \<Rightarrow> (b_results bs ! index it)\<lparr>Error := Some e\<rparr>
                          | None \<Rightarrow> (b_results bs ! index it)\<lparr>URL := rawURL it,
                                                                 Info := info\<rparr>)]\<rparr>))"

text \<open>The spawned goroutines run one at a time, each to completion, in an order the
  scheduler chooses: \<open>pool\<close> holds those that have not run yet. \<open>wg.Wait()\<close> returns when
  the pool is empty.\<close>

function run_tasks :: "'w Env \<Rightarrow> int list \<Rightarrow> (item \<times> string) list \<Rightarrow> 'w batch \<Rightarrow> abort + 'w batch" where
  "run_tasks env sizes pool bs =
    (if pool = [] then Inr bs
     else let (k, w) = next_goroutine env (b_world bs);
              j = k mod length pool
          in case run_task env sizes (pool ! j) (bs\<lparr>b_world := w\<rparr>) of
               Inl a \<Rightarrow> Inl a
             | Inr bs \<Rightarrow> run_tasks env sizes (take j pool @ drop (Suc j) pool) bs)"
  by pat_completeness auto
termination
proof (relation "measure (\<lambda>(env, sizes, pool, bs). length pool)")
  show "wf (measure (\<lambda>(env, sizes, pool, bs). length pool))"
    by simp
next
  fix env :: "'w Env" and sizes :: "int list" and pool :: "(item \<times> string) list"
    and bs bs' :: "'w batch" and x :: "nat \<times> 'w" and k j :: nat and w :: 'w
  assume "pool \<noteq> []" and "j = k mod length pool"
  then have "j < length pool"
    by simp
  then show "((env, sizes, take j pool @ drop (Suc j) pool, bs'), env, sizes, pool, bs)
      \<in> measure (\<lambda>(env, sizes, pool, bs). length pool)"
    by auto
qed

declare run_tasks.simps [simp del]

text \<open>The goroutines spawned by the second pair of loops: for every origin in sorted
  order, the items of its group whose result carries no error.\<close>

definition spawned ::
  "GetHTTPImageResult list \<Rightarrow> (string \<rightharpoonup> item list) \<Rightarrow> string list \<Rightarrow> (item \<times> string) list" where
  "spawned results originGroups origins =
     concat (map (\<lambda>origin.
        map (\<lambda>it. (it, origin))
          (filter (\<lambda>it. Error (results ! index it) = None)
             (case originGroups origin of None \<Rightarrow> [] | Some g \<Rightarrow> g)))
       origins)"

definition sizes_default :: "int list" where
  "sizes_default = [1024, 4096, 16384, 65536, 262144]"

definition zero_result :: GetHTTPImageResult where
  "zero_result = \<lparr>URL = [], Info = zero_Info, Error = None\<rparr>"

text \<open>The call returns the results with the final world and the trace of all requests
  and sleeps. The context is part of the environment (a nil context becomes
  \<open>context.Background()\<close>, whose \<open>Done\<close> never fires); the HTTP clients and transports
  the source builds per origin, and \<open>CloseIdleConnections\<close> at the end, change nothing
  that the model records.\<close>

definition GetHTTPImageDataWithOptions ::
  "'w Env \<Rightarrow> 'w \<Rightarrow> string list \<Rightarrow> GetHTTPImageOptions
     \<Rightarrow> abort + (GetHTTPImageResult list \<times> 'w \<times> event list)" where
  "GetHTTPImageDataWithOptions env w urls options =
    (let sizes = sizes_default;
         options = normalizeHTTPImageOptions options;
         results = replicate (length urls) zero_result
     in if length urls = 0 then Inr (results, w, [])
        else
          let (results, originGroups, origins) = parse_loop env urls 0 results Map.empty [];
              origins = sort origins;
              originWorkers = map_of (map (\<lambda>origin. (origin,
                  newOriginLimiter (ConcurrentRequestsNonReusable options)
                    (ConcurrentRequestsReusable options))) origins);
              globalLimiter = make_chan (MaxConcurrentConnections options)
          in case run_tasks env sizes (spawned results originGroups origins)
                    \<lparr>b_world = w, b_events = [], b_global = globalLimiter,
                     b_workers = originWorkers, b_results = results\<rparr> of
               Inl a \<Rightarrow> Inl a
             | Inr bs \<Rightarrow> Inr (b_results bs, b_world bs, b_events bs))"

definition GetHTTPImageInfo ::
  "'w Env \<Rightarrow> 'w \<Rightarrow> string list \<Rightarrow> abort + (GetHTTPImageResult list \<times> 'w \<times> event list)" where
  "GetHTTPImageInfo env w urls =
     GetHTTPImageDataWithOptions env w urls
       \<lparr>ConcurrentRequestsReusable = 0, ConcurrentRequestsNonReusable = 0,
        MaxConcurrentConnections = 0\<rparr>"

section \<open>Auxiliary notions for the proofs\<close>

text \<open>What a step of a task for \<open>url\<close> leaves alone: the channels keep their contents, the
  range flag is not reset, and the trace only grows, by requests for \<open>url\<close> and sleeps.\<close>

definition preserves :: "string \<Rightarrow> 'w state \<Rightarrow> 'w state \<Rightarrow> bool" where
  "preserves url st st' \<longleftrightarrow>
     globalLimiter st' = globalLimiter st \<and> base (limiter st') = base (limiter st)
     \<and> extra (limiter st') = extra (limiter st)
     \<and> (rangeSupported (limiter st) \<longrightarrow> rangeSupported (limiter st'))
     \<and> (\<exists>evs. events st' = events st @ evs
          \<and> (\<forall>e\<in>set evs. (\<exists>n. e = Requested \<lparr>req_URL = url, Range_last = n\<rparr>)
                           \<or> (\<exists>d. e = Slept d)))"


text \<open>The error the first loop of the batch records for a URL, if any: the error of
  \<open>url.Parse\<close>, or \<open>invalid URL\<close> for an empty scheme or host.\<close>

definition parse_failure :: "'w Env \<Rightarrow> string \<Rightarrow> error option" where
  "parse_failure env u =
    (case url_Parse env u of
       Inl err \<Rightarrow> Some err
     | Inr parsed \<Rightarrow> if Scheme parsed = [] \<or> Host parsed = []
                     then Some (URLError ''parse'' u ''invalid URL'') else None)"





section \<open>Concrete inputs\<close>

text \<open>An 80-byte slice that starts like a JPEG whose first segment (APP0, declared length
  1024) runs past the end of the data, as the first bytes of a larger file do.\<close>

definition jpeg_truncated :: bytes where
  "jpeg_truncated = Slice ([0xff, 0xd8, 0xff, 0xe0, 0x04, 0x00] @ replicate 74 0) []"

text \<open>An 80-byte slice with the JPEG signature and a start-of-frame marker whose
  dimension fields are zero.\<close>

definition jpeg_zero :: bytes where
  "jpeg_zero = Slice ([0xff, 0xd8, 0xff, 0xc0] @ replicate 76 0) []"

text \<open>A complete 13-byte GIF header (signature and logical screen descriptor) of a 1x1
  image.\<close>

definition gif_1x1 :: bytes where
  "gif_1x1 = Slice [ch CHR ''G'', ch CHR ''I'', ch CHR ''F'', ch CHR ''8'', ch CHR ''9'',
     ch CHR ''a'', 1, 0, 1, 0, 0x80, 0, 0] []"

text \<open>The first 80 bytes of a PNG file of 90x60 pixels: signature, the length and name of
  the IHDR chunk, width and height, then padding.\<close>

definition png_90x60 :: "byte list" where
  "png_90x60 = [0x89, ch CHR ''P'', ch CHR ''N'', ch CHR ''G'', 0x0d, 0x0a, 0x1a, 0x0a,
     0, 0, 0, 0x0d, ch CHR ''I'', ch CHR ''H'', ch CHR ''D'', ch CHR ''R'',
     0, 0, 0, 90, 0, 0, 0, 60] @ replicate 56 0"

text \<open>A world that counts the requests it has seen, with a server that answers every
  request with the same response. \<open>http://a/x.png\<close> parses, the empty string parses to
  a URL without scheme and host, anything else is an error of \<open>url.Parse\<close>; the context
  is never done and timers fire.\<close>

definition env_serving :: "Response \<Rightarrow> nat Env" where
  "env_serving resp = \<lparr>
     url_Parse = (\<lambda>u. if u = ''http://a/x.png''
                       then Inr \<lparr>Scheme = ''http'', Host = ''a'', Port = [], Hostname = ''a''\<rparr>
                       else if u = []
                       then Inr \<lparr>Scheme = [], Host = [], Port = [], Hostname = []\<rparr>
                       else Inl (URLError ''parse'' u ''missing protocol scheme'')),
     TrimSpace = (\<lambda>v. v),
     Atoi = (\<lambda>v. if v = ''1'' then Some 1 else None),
     NewRequestWithContext = (\<lambda>u. None),
     Do = (\<lambda>w req. (Inr resp, w + 1)),
     ParseTime_Until = (\<lambda>w v. None),
     timer_or_Done = (\<lambda>w d. (None, w)),
     observe = (\<lambda>w. ((None, 0), w)),
     next_goroutine = (\<lambda>w. (0, w))\<rparr>"

definition resp_png :: Response where
  "resp_png = \<lparr>StatusCode = 206, Status = ''206 Partial Content'', RetryAfter = [],
     Body = png_90x60, BodyErr = None, Spare = []\<rparr>"

definition resp_404 :: Response where
  "resp_404 = \<lparr>StatusCode = 404, Status = ''404 Not Found'', RetryAfter = [],
     Body = [], BodyErr = None, Spare = []\<rparr>"

definition resp_429 :: Response where
  "resp_429 = \<lparr>StatusCode = 429, Status = ''429 Too Many Requests'', RetryAfter = ''1'',
     Body = [], BodyErr = None, Spare = []\<rparr>"



text \<open>A context that is cancelled after the first \<open>select\<close>, and one that is cancelled
  during a sleep.\<close>

definition env_cancel :: "nat Env" where
  "env_cancel = (env_serving resp_png)
     \<lparr>observe := (\<lambda>w. ((if w = 0 then None else Some Canceled, w), w + 1))\<rparr>"

definition env_429_cancel :: "nat Env" where
  "env_429_cancel = (env_serving resp_429)\<lparr>timer_or_Done := (\<lambda>w d. (Some Canceled, w))\<rparr>"

definition st_idle :: "nat state" where
  "st_idle = \<lparr>world = 0, events = [], globalLimiter = make_chan 1,
              limiter = newOriginLimiter 1 1\<rparr>"

definition x_png :: string where
  "x_png = ''http://a/x.png''"





section \<open>Limiters: helper lemmas\<close>

lemma release_send: "release (send c) = Some c"
  by (simp add: release_def send_def)

lemma select_member:
  assumes "select ready obs = Some x"
  shows "x \<in> set ready"
  using assms by (auto simp: select_def split: if_splits)

lemma acquire_cases:
  assumes "acquire obs c = Some (r, c')"
  shows "(r = None \<and> can_send c \<and> c' = send c)
       \<or> (\<exists>err. r = Some err \<and> fst obs = Some err \<and> c' = c)"
  using assms
  by (auto simp: acquire_def select_def done_cases_def nth_Cons'
      split: option.splits select_case.splits if_splits)


lemma acquire_blocked_done:
  assumes "\<not> can_send c" "fst obs = Some err"
  shows "acquire obs c = Some (Some err, c)"
  using assms by (simp add: acquire_def select_def done_cases_def)

lemma originLimiter_acquire_cases:
  assumes "originLimiter_acquire obs l = Some (r, l')"
  shows "(r = Inr BaseTier \<and> can_send (base l) \<and> l' = l\<lparr>base := send (base l)\<rparr>)
       \<or> (r = Inr ExtraTier \<and> rangeSupported l
            \<and> (\<exists>c. extra l = Some c \<and> can_send c \<and> l' = l\<lparr>extra := Some (send c)\<rparr>))
       \<or> (\<exists>err. r = Inl err \<and> fst obs = Some err \<and> l' = l)"
proof (cases "rangeSupported l \<and> extra l \<noteq> None")
  case True
  then obtain c where c: "extra l = Some c" by auto
  define ready where "ready = (if can_send (base l) then [SendBase] else [])
                        @ (if can_send c then [SendExtra] else []) @ done_cases obs"
  have eq: "originLimiter_acquire obs l =
     (case select ready obs of
        None \<Rightarrow> None
      | Some (CtxDone err) \<Rightarrow> Some (Inl err, l)
      | Some SendExtra \<Rightarrow> Some (Inr ExtraTier, l\<lparr>extra := Some (send (the (extra l)))\<rparr>)
      | Some _ \<Rightarrow> Some (Inr BaseTier, l\<lparr>base := send (base l)\<rparr>))"
    unfolding originLimiter_acquire_def ready_def if_P [OF True] using c by simp
  from assms eq obtain x where sel: "select ready obs = Some x"
    by (cases "select ready obs") auto
  from select_member [OF sel] have mem: "(x = SendBase \<and> can_send (base l))
      \<or> (x = SendExtra \<and> can_send c) \<or> (\<exists>err. x = CtxDone err \<and> fst obs = Some err)"
    by (auto simp: ready_def done_cases_def split: if_splits option.splits)
  from assms [unfolded eq sel] mem True c show ?thesis
    by auto
next
  case False
  define ready where "ready = (if can_send (base l) then [SendBase] else []) @ done_cases obs"
  have eq: "originLimiter_acquire obs l =
     (case select ready obs of
        None \<Rightarrow> None
      | Some (CtxDone err) \<Rightarrow> Some (Inl err, l)
      | Some _ \<Rightarrow> Some (Inr BaseTier, l\<lparr>base := send (base l)\<rparr>))"
    unfolding originLimiter_acquire_def ready_def if_not_P [OF False] by simp
  from assms eq obtain x where sel: "select ready obs = Some x"
    by (cases "select ready obs") auto
  from select_member [OF sel] have mem: "(x = SendBase \<and> can_send (base l))
      \<or> (\<exists>err. x = CtxDone err \<and> fst obs = Some err)"
    by (auto simp: ready_def done_cases_def split: if_splits option.splits)
  from assms [unfolded eq sel] mem show ?thesis
    by auto
qed


lemma originLimiter_acquire_blocked_done:
  assumes "\<not> can_send (base l)"
    and "rangeSupported l \<longrightarrow> (\<forall>c. extra l = Some c \<longrightarrow> \<not> can_send c)"
    and "fst obs = Some err"
  shows "originLimiter_acquire obs l = Some (Inl err, l)"
  using assms by (auto simp: originLimiter_acquire_def select_def done_cases_def)

lemma releaseOrigin_acquired:
  assumes "originLimiter_acquire obs l = Some (Inr t, l1)"
    and "base l2 = base l1" "extra l2 = extra l1"
  shows "\<exists>l3. releaseOrigin t l2 = Some l3 \<and> base l3 = base l \<and> extra l3 = extra l
     \<and> rangeSupported l3 = rangeSupported l2"
  using originLimiter_acquire_cases [OF assms(1)] assms(2,3)
  by (auto simp: releaseOrigin_def release_send)

section \<open>The fetch chain: helper lemmas\<close>

lemma preserves_refl: "preserves url st st"
  by (simp add: preserves_def)

lemma preserves_trans:
  assumes "preserves url st st1" "preserves url st1 st2"
  shows "preserves url st st2"
proof -
  from assms obtain evs1 evs2 where
    "events st1 = events st @ evs1" "events st2 = events st1 @ evs2"
    "\<forall>e\<in>set evs1. (\<exists>n. e = Requested \<lparr>req_URL = url, Range_last = n\<rparr>) \<or> (\<exists>d. e = Slept d)"
    "\<forall>e\<in>set evs2. (\<exists>n. e = Requested \<lparr>req_URL = url, Range_last = n\<rparr>) \<or> (\<exists>d. e = Slept d)"
    unfolding preserves_def by blast
  then have "events st2 = events st @ (evs1 @ evs2)
    \<and> (\<forall>e\<in>set (evs1 @ evs2). (\<exists>n. e = Requested \<lparr>req_URL = url, Range_last = n\<rparr>)
          \<or> (\<exists>d. e = Slept d))"
    by auto
  then have "\<exists>evs. events st2 = events st @ evs
    \<and> (\<forall>e\<in>set evs. (\<exists>n. e = Requested \<lparr>req_URL = url, Range_last = n\<rparr>) \<or> (\<exists>d. e = Slept d))"
    by blast
  with assms show ?thesis
    unfolding preserves_def by simp
qed

lemma Once_preserves:
  assumes "fetchImageInfoOnce env url sz st = Inr (r, st')"
  shows "preserves url st st'"
  using assms
  by (auto simp: fetchImageInfoOnce_def Let_def enableReusable_def preserves_def
      split: option.splits sum.splits prod.splits if_splits)


lemma Progressive_loop_preserves:
  assumes "fetchImageInfoProgressive_loop env url sizes info lastErr lastRead st = Inr (r, st')"
  shows "preserves url st st'"
  using assms
proof (induction sizes arbitrary: info lastErr lastRead st)
  case Nil
  then show ?case by (simp add: preserves_refl)
next
  case (Cons sz sizes)
  show ?case
  proof (cases "sz < 80")
    case True
    with Cons show ?thesis by simp
  next
    case False
    from Cons.prems False obtain r1 st1 where
      once: "fetchImageInfoOnce env url sz st = Inr (r1, st1)"
      by (auto split: sum.splits)
    note f1 = Once_preserves [OF once]
    obtain info1 ra1 err1 more1 rb1 where r1: "r1 = (info1, ra1, err1, more1, rb1)"
      by (cases r1) auto
    show ?thesis
    proof (cases "ra1 > 0 \<or> err1 \<noteq> None \<or> \<not> more1")
      case True
      with Cons.prems False once r1 have "st' = st1"
        by (auto simp: Let_def split: if_splits)
      with f1 show ?thesis by simp
    next
      case stop: False
      with Cons.prems False once r1 have
        "fetchImageInfoProgressive_loop env url sizes info1 err1
           (if rb1 > 0 then rb1 else lastRead) st1 = Inr (r, st')"
        by (auto simp: Let_def split: if_splits)
      from preserves_trans [OF f1 Cons.IH [OF this]] show ?thesis .
    qed
  qed
qed


lemma sleepWithContext_preserves:
  assumes "sleepWithContext env d st = (r, st')"
  shows "preserves url st st'"
  using assms
  by (auto simp: sleepWithContext_def preserves_def split: prod.splits)

lemma WithRetry_loop_second:
  "fetchImageInfoWithRetry_loop env url sizes (Suc 0) info lastErr st =
     (case fetchImageInfoProgressive env url sizes st of
        Inl a \<Rightarrow> Inl a
      | Inr ((info2, ra2, err2), st2) \<Rightarrow> Inr ((info2, err2), st2))"
  by (subst fetchImageInfoWithRetry_loop.simps) (auto split: sum.splits)

lemma WithRetry_unfold:
  "fetchImageInfoWithRetry env url sizes st =
     (case fetchImageInfoProgressive env url sizes st of
        Inl a \<Rightarrow> Inl a
      | Inr ((info1, ra1, err1), st1) \<Rightarrow>
         if err1 = None then Inr ((info1, None), st1)
         else if ra1 \<le> 0 then Inr ((info1, err1), st1)
         else (case sleepWithContext env ra1 st1 of
                 (Some err, st2) \<Rightarrow> Inr ((info1, Some err), st2)
               | (None, st2) \<Rightarrow>
                  (case fetchImageInfoProgressive env url sizes st2 of
                     Inl a \<Rightarrow> Inl a
                   | Inr ((info2, ra2, err2), st3) \<Rightarrow> Inr ((info2, err2), st3))))"
  unfolding fetchImageInfoWithRetry_def
  by (subst fetchImageInfoWithRetry_loop.simps)
     (auto simp: WithRetry_loop_second split: sum.splits option.splits prod.splits)

lemma Progressive_preserves:
  assumes "fetchImageInfoProgressive env url sizes st = Inr (r, st')"
  shows "preserves url st st'"
  using assms by (simp add: fetchImageInfoProgressive_def Progressive_loop_preserves)


lemma WithRetry_preserves:
  assumes "fetchImageInfoWithRetry env url sizes st = Inr (r, st')"
  shows "preserves url st st'"
proof -
  from assms obtain info1 ra1 err1 st1 where
    prog: "fetchImageInfoProgressive env url sizes st = Inr ((info1, ra1, err1), st1)"
    by (auto simp: WithRetry_unfold split: sum.splits)
  note f1 = Progressive_preserves [OF prog]
  show ?thesis
  proof (cases "err1 = None \<or> ra1 \<le> 0")
    case True
    with assms prog have "st' = st1"
      by (auto simp: WithRetry_unfold split: if_splits)
    with f1 show ?thesis by simp
  next
    case go: False
    obtain sr st2 where sl: "sleepWithContext env ra1 st1 = (sr, st2)"
      by (cases "sleepWithContext env ra1 st1") auto
    note f2 = preserves_trans [OF f1 sleepWithContext_preserves [OF sl]]
    show ?thesis
    proof (cases sr)
      case (Some err)
      with assms prog go sl have "st' = st2"
        by (auto simp: WithRetry_unfold split: if_splits)
      with f2 show ?thesis by simp
    next
      case None
      with assms prog go sl obtain r2 where
        "fetchImageInfoProgressive env url sizes st2 = Inr (r2, st')"
        by (auto simp: WithRetry_unfold split: if_splits sum.splits)
      from preserves_trans [OF f2 Progressive_preserves [OF this]] show ?thesis .
    qed
  qed
qed


lemma observe_select_frame:
  assumes "observe_select env st = (obs, st1)"
  shows "events st1 = events st \<and> globalLimiter st1 = globalLimiter st \<and> limiter st1 = limiter st"
  using assms by (auto simp: observe_select_def split: prod.splits)

lemma fetchImageInfo_preserves:
  assumes "fetchImageInfo env url sizes st = Inr (r, st')"
  shows "preserves url st st'"
proof -
  obtain obs1 st1 where o1: "observe_select env st = (obs1, st1)"
    by (cases "observe_select env st") auto
  note f1 = observe_select_frame [OF o1]
  from assms o1 obtain r1 g where a1: "acquire obs1 (globalLimiter st1) = Some (r1, g)"
    by (auto simp: fetchImageInfo_def split: option.splits)
  show ?thesis
  proof (cases r1)
    case (Some err)
    with acquire_cases [OF a1] have "g = globalLimiter st1" by auto
    with assms o1 a1 Some f1 show ?thesis
      by (auto simp: fetchImageInfo_def preserves_def)
  next
    case None
    with acquire_cases [OF a1] have g: "g = send (globalLimiter st1)" by auto
    obtain obs2 st2 where o2: "observe_select env (st1\<lparr>globalLimiter := g\<rparr>) = (obs2, st2)"
      by (cases "observe_select env (st1\<lparr>globalLimiter := g\<rparr>)") auto
    note f2 = observe_select_frame [OF o2]
    from assms o1 a1 None o2 obtain r2 l where
      a2: "originLimiter_acquire obs2 (limiter st2) = Some (r2, l)"
      by (auto simp: fetchImageInfo_def split: option.splits)
    show ?thesis
    proof (cases r2)
      case (Inl err)
      with originLimiter_acquire_cases [OF a2] have l: "l = limiter st2" by auto
      from f2 g have "release (globalLimiter st2) = Some (globalLimiter st1)"
        by (simp add: release_send)
      with assms o1 a1 None o2 a2 Inl l f1 f2 show ?thesis
        by (auto simp: fetchImageInfo_def preserves_def)
    next
      case (Inr t)
      from assms o1 a1 None o2 a2 Inr obtain r3 st3 where
        w: "fetchImageInfoWithRetry env url sizes (st2\<lparr>limiter := l\<rparr>) = Inr (r3, st3)"
        by (auto simp: fetchImageInfo_def split: sum.splits)
      note f3 = WithRetry_preserves [OF w]
      from f3 f2 g have rel: "release (globalLimiter st3) = Some (globalLimiter st1)"
        by (simp add: preserves_def release_send)
      from f3 have "base (limiter st3) = base l" "extra (limiter st3) = extra l"
        by (simp_all add: preserves_def)
      from releaseOrigin_acquired [OF a2 [unfolded Inr] this] obtain l3 where
        l3: "releaseOrigin t (limiter st3) = Some l3" "base l3 = base (limiter st2)"
          "extra l3 = extra (limiter st2)" "rangeSupported l3 = rangeSupported (limiter st3)"
        by auto
      from originLimiter_acquire_cases [OF a2] have flag: "rangeSupported l = rangeSupported (limiter st2)"
        by auto
      from assms o1 a1 None o2 a2 Inr w rel l3 have
        st': "st' = st3\<lparr>globalLimiter := globalLimiter st1, limiter := l3\<rparr>"
        by (auto simp: fetchImageInfo_def)
      from f3 f1 f2 flag l3 show ?thesis
        unfolding st' preserves_def by simp
    qed
  qed
qed


section \<open>Evaluation on the concrete inputs\<close>

lemma GetInfo_png_90x60:
  "GetInfo (Slice png_90x60 []) = Some \<lparr>Type = PNG, Width = 90, Height = 60\<rparr>"
  by (simp add: GetInfo_def png_90x60_def minOffset_def len_def hasJPEG_def hasPNG_def ix_def
      png_def quad_def zero_Info_def)


lemma Once_png:
  "fetchImageInfoOnce (env_serving resp_png) x_png 1024 st
   = Inr ((\<lparr>Type = PNG, Width = 90, Height = 60\<rparr>, 0, None, False, 80),
          st\<lparr>world := world st + 1,
             events := events st @ [Requested \<lparr>req_URL = x_png, Range_last = 1023\<rparr>],
             limiter := enableReusable (limiter st)\<rparr>)"
proof -
  have "ReadAll_LimitReader resp_png 1024 = Inr (Slice png_90x60 [])"
    by (simp add: ReadAll_LimitReader_def resp_png_def png_90x60_def)
  moreover have "len (Slice png_90x60 []) = 80"
    by (simp add: len_def png_90x60_def)
  moreover have "StatusCode resp_png = 206"
    by (simp add: resp_png_def)
  ultimately show ?thesis
    by (simp add: fetchImageInfoOnce_def env_serving_def Let_def GetInfo_png_90x60)
qed

lemma Once_404:
  "fetchImageInfoOnce (env_serving resp_404) x_png 1024 st
   = Inr ((zero_Info, 0, Some (HTTPStatusError x_png 404 ''404 Not Found''), False, 0),
          st\<lparr>world := world st + 1,
             events := events st @ [Requested \<lparr>req_URL = x_png, Range_last = 1023\<rparr>]\<rparr>)"
  by (simp add: fetchImageInfoOnce_def env_serving_def Let_def resp_404_def)


lemma parseRetryAfter_1:
  "TrimSpace env = (\<lambda>v. v) \<Longrightarrow> Atoi env = (\<lambda>v. if v = ''1'' then Some 1 else None)
     \<Longrightarrow> parseRetryAfter env w ''1'' = (1000000000, True)"
  by (simp add: parseRetryAfter_def wrap_int64_def Second_def)

lemma Once_429:
  assumes "env = env_serving resp_429 \<or> env = env_429_cancel"
  shows "fetchImageInfoOnce env x_png sz st
   = Inr ((zero_Info, 1000000000,
           Some (RetryAfterError x_png 429 ''429 Too Many Requests'' 1000000000), False, 0),
          st\<lparr>world := world st + 1,
             events := events st @ [Requested \<lparr>req_URL = x_png, Range_last = sz - 1\<rparr>]\<rparr>)"
proof -
  from assms have env: "TrimSpace env = (\<lambda>v. v)"
    "Atoi env = (\<lambda>v. if v = ''1'' then Some 1 else None)"
    "NewRequestWithContext env = (\<lambda>u. None)" "Do env = (\<lambda>w req. (Inr resp_429, w + 1))"
    by (auto simp: env_serving_def env_429_cancel_def)
  have "parseRetryAfter env w (RetryAfter resp_429) = (1000000000, True)" for w
    using parseRetryAfter_1 [OF env(1,2)] by (simp add: resp_429_def)
  moreover have "StatusCode resp_429 = 429" "Status resp_429 = ''429 Too Many Requests''"
    by (simp_all add: resp_429_def)
  ultimately show ?thesis
    by (simp add: fetchImageInfoOnce_def env Let_def)
qed

lemma Progressive_429:
  assumes "env = env_serving resp_429 \<or> env = env_429_cancel"
  shows "fetchImageInfoProgressive env x_png sizes_default st
   = Inr ((zero_Info, 1000000000,
           Some (RetryAfterError x_png 429 ''429 Too Many Requests'' 1000000000)),
          st\<lparr>world := world st + 1,
             events := events st @ [Requested \<lparr>req_URL = x_png, Range_last = 1023\<rparr>]\<rparr>)"
  by (simp add: fetchImageInfoProgressive_def sizes_default_def Once_429 [OF assms])

lemma Progressive_png:
  "fetchImageInfoProgressive (env_serving resp_png) x_png sizes_default st
   = Inr ((\<lparr>Type = PNG, Width = 90, Height = 60\<rparr>, 0, None),
          st\<lparr>world := world st + 1,
             events := events st @ [Requested \<lparr>req_URL = x_png, Range_last = 1023\<rparr>],
             limiter := enableReusable (limiter st)\<rparr>)"
  by (simp add: fetchImageInfoProgressive_def sizes_default_def Once_png)

lemma Progressive_404:
  "fetchImageInfoProgressive (env_serving resp_404) x_png sizes_default st
   = Inr ((zero_Info, 0, Some (HTTPStatusError x_png 404 ''404 Not Found'')),
          st\<lparr>world := world st + 1,
             events := events st @ [Requested \<lparr>req_URL = x_png, Range_last = 1023\<rparr>]\<rparr>)"
  by (simp add: fetchImageInfoProgressive_def sizes_default_def Once_404)

section \<open>The batch: helper lemmas\<close>




























section \<open>Evaluation of the concrete batches\<close>

lemma parse_failure_urls3:
  "parse_failure (env_serving r) ''::not a url''
     = Some (URLError ''parse'' ''::not a url'' ''missing protocol scheme'')"
  "parse_failure (env_serving r) [] = Some (URLError ''parse'' [] ''invalid URL'')"
  "parse_failure (env_serving r) x_png = None"
  by (simp_all add: parse_failure_def env_serving_def x_png_def)









section \<open>The progressive fetcher\<close>

lemma Once_retry_signal:
  assumes "fetchImageInfoOnce env url sz st = Inr ((info, ra, err, needMore, rb), st')"
    and "ra \<noteq> 0"
  shows "\<exists>code status. err = Some (RetryAfterError url code status ra) \<and> (code = 429 \<or> code = 503)"
  using assms
  by (auto simp: fetchImageInfoOnce_def Let_def
      split: option.splits sum.splits prod.splits if_splits)

lemma Progressive_loop_retry_signal:
  assumes "fetchImageInfoProgressive_loop env url sizes info lastErr lastRead st
             = Inr ((info', ra, err), st')"
    and "ra \<noteq> 0"
  shows "\<exists>code status. err = Some (RetryAfterError url code status ra) \<and> (code = 429 \<or> code = 503)"
  using assms
proof (induction sizes arbitrary: info lastErr lastRead st)
  case Nil
  then show ?case by simp
next
  case (Cons sz sizes)
  show ?case
  proof (cases "sz < 80")
    case True
    with Cons show ?thesis by simp
  next
    case False
    from Cons.prems(1) False obtain info1 ra1 err1 more1 rb1 st1 where
      once: "fetchImageInfoOnce env url sz st = Inr ((info1, ra1, err1, more1, rb1), st1)"
      by (auto split: sum.splits)
    show ?thesis
    proof (cases "ra1 > 0")
      case True
      with Cons.prems False once have "ra = ra1" "err = err1"
        by (auto simp: Let_def)
      with Once_retry_signal [OF once] True show ?thesis by simp
    next
      case nosig: False
      show ?thesis
      proof (cases "err1 \<noteq> None \<or> \<not> more1")
        case True
        with Cons.prems False once nosig have "ra = 0"
          by (auto simp: Let_def split: if_splits)
        with Cons.prems(2) show ?thesis by simp
      next
        case go: False
        with Cons.prems False once nosig have
          "fetchImageInfoProgressive_loop env url sizes info1 err1
             (if rb1 > 0 then rb1 else lastRead) st1 = Inr ((info', ra, err), st')"
          by (auto simp: Let_def split: if_splits)
        from Cons.IH [OF this Cons.prems(2)] show ?thesis .
      qed
    qed
  qed
qed


section \<open>The retry policy\<close>

text \<open>
  Claim C5. \<open>fetchImageInfoWithRetry\<close> runs the progressive fetcher once;
  \<^item> a result without error is returned as it is;
  \<^item> an error without a positive retry-after wait is returned as it is;
  \<^item> the fetcher signals a positive wait only with a \<open>RetryAfterError\<close> for a 429 or
    503 response, holding that wait; then the policy sleeps for exactly this duration;
    when the context ends the sleep, its error is returned and nothing is retried;
  \<^item> otherwise the progressive fetcher runs a second time on the same list of
    budgets, and whatever it returns (an \<open>Info\<close> or any error, a second retry-after
    signal included) is the result: the state is the one the second run left, with no
    further sleep or request.
\<close>

theorem fetchImageInfoWithRetry_policy:
  "(fetchImageInfoProgressive env url sizes st = Inr ((info1, ra1, None), st1) \<longrightarrow>
      fetchImageInfoWithRetry env url sizes st = Inr ((info1, None), st1))
   \<and> (fetchImageInfoProgressive env url sizes st = Inr ((info1, ra1, Some e1), st1) \<and> ra1 \<le> 0 \<longrightarrow>
      fetchImageInfoWithRetry env url sizes st = Inr ((info1, Some e1), st1))
   \<and> (fetchImageInfoProgressive env url sizes st = Inr ((info1, ra1, Some e1), st1) \<and> 0 < ra1 \<longrightarrow>
      (\<exists>code status. e1 = RetryAfterError url code status ra1 \<and> (code = 429 \<or> code = 503)))
   \<and> (fetchImageInfoProgressive env url sizes st = Inr ((info1, ra1, Some e1), st1) \<and> 0 < ra1
        \<and> timer_or_Done env (world st1) ra1 = (Some cerr, w2) \<longrightarrow>
      fetchImageInfoWithRetry env url sizes st
      = Inr ((info1, Some cerr), st1\<lparr>world := w2, events := events st1 @ [Slept ra1]\<rparr>))
   \<and> (fetchImageInfoProgressive env url sizes st = Inr ((info1, ra1, Some e1), st1) \<and> 0 < ra1
        \<and> timer_or_Done env (world st1) ra1 = (None, w2) \<longrightarrow>
      fetchImageInfoWithRetry env url sizes st
      = (case fetchImageInfoProgressive env url sizes
                (st1\<lparr>world := w2, events := events st1 @ [Slept ra1]\<rparr>) of
           Inl a \<Rightarrow> Inl a
         | Inr ((info2, ra2, err2), st3) \<Rightarrow> Inr ((info2, err2), st3)))"
proof (intro conjI impI)
  assume "fetchImageInfoProgressive env url sizes st = Inr ((info1, ra1, None), st1)"
  then show "fetchImageInfoWithRetry env url sizes st = Inr ((info1, None), st1)"
    by (simp add: WithRetry_unfold)
next
  assume "fetchImageInfoProgressive env url sizes st = Inr ((info1, ra1, Some e1), st1) \<and> ra1 \<le> 0"
  then show "fetchImageInfoWithRetry env url sizes st = Inr ((info1, Some e1), st1)"
    by (simp add: WithRetry_unfold)
next
  assume "fetchImageInfoProgressive env url sizes st = Inr ((info1, ra1, Some e1), st1) \<and> 0 < ra1"
  then show "\<exists>code status. e1 = RetryAfterError url code status ra1 \<and> (code = 429 \<or> code = 503)"
    using Progressive_loop_retry_signal [of env url sizes zero_Info None 0 st info1 ra1 "Some e1" st1]
    by (simp add: fetchImageInfoProgressive_def)
next
  assume "fetchImageInfoProgressive env url sizes st = Inr ((info1, ra1, Some e1), st1) \<and> 0 < ra1
        \<and> timer_or_Done env (world st1) ra1 = (Some cerr, w2)"
  then show "fetchImageInfoWithRetry env url sizes st
      = Inr ((info1, Some cerr), st1\<lparr>world := w2, events := events st1 @ [Slept ra1]\<rparr>)"
    by (simp add: WithRetry_unfold sleepWithContext_def)
next
  assume "fetchImageInfoProgressive env url sizes st = Inr ((info1, ra1, Some e1), st1) \<and> 0 < ra1
        \<and> timer_or_Done env (world st1) ra1 = (None, w2)"
  then show "fetchImageInfoWithRetry env url sizes st
      = (case fetchImageInfoProgressive env url sizes
                (st1\<lparr>world := w2, events := events st1 @ [Slept ra1]\<rparr>) of
           Inl a \<Rightarrow> Inl a
         | Inr ((info2, ra2, err2), st3) \<Rightarrow> Inr ((info2, err2), st3))"
    by (simp add: WithRetry_unfold sleepWithContext_def)
qed


text \<open>Four probes: a PNG header (no retry), a 404 (no retry), a server that always
  answers 429 with \<open>Retry-After: 1\<close> (one sleep of one second, one retry, then the
  rate-limit error), and the same server with a context cancelled during the sleep.\<close>

theorem fetchImageInfoWithRetry_policy_witness:
  "fetchImageInfoWithRetry (env_serving resp_png) x_png sizes_default st_idle
     = Inr ((\<lparr>Type = PNG, Width = 90, Height = 60\<rparr>, None),
            st_idle\<lparr>world := 1, events := [Requested \<lparr>req_URL = x_png, Range_last = 1023\<rparr>],
                    limiter := enableReusable (newOriginLimiter 1 1)\<rparr>)
   \<and> fetchImageInfoWithRetry (env_serving resp_404) x_png sizes_default st_idle
     = Inr ((zero_Info, Some (HTTPStatusError x_png 404 ''404 Not Found'')),
            st_idle\<lparr>world := 1, events := [Requested \<lparr>req_URL = x_png, Range_last = 1023\<rparr>]\<rparr>)
   \<and> fetchImageInfoWithRetry (env_serving resp_429) x_png sizes_default st_idle
     = Inr ((zero_Info, Some (RetryAfterError x_png 429 ''429 Too Many Requests'' 1000000000)),
            st_idle\<lparr>world := 2, events := [Requested \<lparr>req_URL = x_png, Range_last = 1023\<rparr>,
                 Slept 1000000000, Requested \<lparr>req_URL = x_png, Range_last = 1023\<rparr>]\<rparr>)
   \<and> fetchImageInfoWithRetry env_429_cancel x_png sizes_default st_idle
     = Inr ((zero_Info, Some Canceled),
            st_idle\<lparr>world := 1, events := [Requested \<lparr>req_URL = x_png, Range_last = 1023\<rparr>,
                 Slept 1000000000]\<rparr>)"
proof -
  let ?req = "Requested \<lparr>req_URL = x_png, Range_last = 1023\<rparr>"
  let ?e429 = "RetryAfterError x_png 429 ''429 Too Many Requests'' 1000000000"
  let ?st1 = "st_idle\<lparr>world := 1, events := [?req]\<rparr>"
  have st1: "st_idle\<lparr>world := world st_idle + 1, events := events st_idle @ [?req]\<rparr> = ?st1"
    by (simp add: st_idle_def)
  note ok = fetchImageInfoWithRetry_policy
    [where env = "env_serving resp_png" and url = x_png and sizes = sizes_default and st = st_idle
       and ?info1.0 = "\<lparr>Type = PNG, Width = 90, Height = 60\<rparr>" and ?ra1.0 = 0
       and ?st1.0 = "?st1\<lparr>limiter := enableReusable (newOriginLimiter 1 1)\<rparr>"]
  note e404 = fetchImageInfoWithRetry_policy
    [where env = "env_serving resp_404" and url = x_png and sizes = sizes_default and st = st_idle
       and ?info1.0 = zero_Info and ?ra1.0 = 0 and ?st1.0 = ?st1
       and ?e1.0 = "HTTPStatusError x_png 404 ''404 Not Found''"]
  note again = fetchImageInfoWithRetry_policy
    [where env = "env_serving resp_429" and url = x_png and sizes = sizes_default and st = st_idle
       and ?info1.0 = zero_Info and ?ra1.0 = 1000000000 and ?st1.0 = ?st1
       and ?e1.0 = ?e429 and ?w2.0 = 1]
  note cancel = fetchImageInfoWithRetry_policy
    [where env = env_429_cancel and url = x_png and sizes = sizes_default and st = st_idle
       and ?info1.0 = zero_Info and ?ra1.0 = 1000000000 and ?st1.0 = ?st1
       and ?e1.0 = ?e429 and ?w2.0 = 1 and cerr = Canceled]
  have c1: "fetchImageInfoWithRetry (env_serving resp_png) x_png sizes_default st_idle
     = Inr ((\<lparr>Type = PNG, Width = 90, Height = 60\<rparr>, None),
            ?st1\<lparr>limiter := enableReusable (newOriginLimiter 1 1)\<rparr>)"
    using ok by (simp add: Progressive_png st_idle_def)
  have c2: "fetchImageInfoWithRetry (env_serving resp_404) x_png sizes_default st_idle
     = Inr ((zero_Info, Some (HTTPStatusError x_png 404 ''404 Not Found'')), ?st1)"
    using e404 by (simp add: Progressive_404 st_idle_def)
  have c3: "fetchImageInfoWithRetry (env_serving resp_429) x_png sizes_default st_idle
     = Inr ((zero_Info, Some ?e429), st_idle\<lparr>world := 2, events := [?req, Slept 1000000000, ?req]\<rparr>)"
    using again by (simp add: Progressive_429 st_idle_def) (simp add: env_serving_def)
  have c4: "fetchImageInfoWithRetry env_429_cancel x_png sizes_default st_idle
     = Inr ((zero_Info, Some Canceled), st_idle\<lparr>world := 1, events := [?req, Slept 1000000000]\<rparr>)"
    using cancel by (simp add: Progressive_429 st_idle_def) (simp add: env_429_cancel_def)
  from c1 c2 c3 c4 show ?thesis
    by simp
qed

section \<open>Gate acquisition\<close>

text \<open>
  Claim C9. For the global gate (\<open>acquire\<close>) and the origin gate
  (\<open>originLimiter.acquire\<close>): when no slot can be taken and the context is done, the
  acquisition returns the context's error and the gate is unchanged; whenever an
  acquisition returns an error, that error is the context's and the gate is unchanged, so
  no slot is held. In \<open>fetchImageInfo\<close>, when the global slot was taken and the origin
  gate then returns an error, the call returns that error with the global gate as it was
  before the call, the origin gate untouched and no request sent; and every return of
  \<open>fetchImageInfo\<close> leaves the contents of both gates as they were.
\<close>

theorem gate_acquisition_cancellation:
  "(\<not> can_send c \<and> fst obs = Some err \<longrightarrow> acquire obs c = Some (Some err, c))
   \<and> (acquire obs c = Some (Some err, c') \<longrightarrow> c' = c \<and> fst obs = Some err)
   \<and> (\<not> can_send (base l) \<and> (rangeSupported l \<longrightarrow> (\<forall>x. extra l = Some x \<longrightarrow> \<not> can_send x))
        \<and> fst obs = Some err
      \<longrightarrow> originLimiter_acquire obs l = Some (Inl err, l))
   \<and> (originLimiter_acquire obs l = Some (Inl err, l') \<longrightarrow> l' = l \<and> fst obs = Some err)
   \<and> (observe_select env st = (obs1, st1)
        \<and> acquire obs1 (globalLimiter st1) = Some (None, g)
        \<and> observe_select env (st1\<lparr>globalLimiter := g\<rparr>) = (obs2, st2)
        \<and> originLimiter_acquire obs2 (limiter st2) = Some (Inl err, l2)
      \<longrightarrow> fetchImageInfo env url sizes st
            = Inr ((zero_Info, Some err), st2\<lparr>globalLimiter := globalLimiter st\<rparr>)
          \<and> limiter st2 = limiter st \<and> events st2 = events st)
   \<and> (fetchImageInfo env url sizes st = Inr (r, st')
      \<longrightarrow> globalLimiter st' = globalLimiter st \<and> base (limiter st') = base (limiter st)
          \<and> extra (limiter st') = extra (limiter st))"
proof (intro conjI impI)
  assume "\<not> can_send c \<and> fst obs = Some err"
  then show "acquire obs c = Some (Some err, c)"
    by (simp add: acquire_blocked_done)
next
  assume "acquire obs c = Some (Some err, c')"
  from acquire_cases [OF this] show "c' = c" and "fst obs = Some err"
    by auto
next
  assume "\<not> can_send (base l) \<and> (rangeSupported l \<longrightarrow> (\<forall>x. extra l = Some x \<longrightarrow> \<not> can_send x))
        \<and> fst obs = Some err"
  then show "originLimiter_acquire obs l = Some (Inl err, l)"
    by (simp add: originLimiter_acquire_blocked_done)
next
  assume "originLimiter_acquire obs l = Some (Inl err, l')"
  from originLimiter_acquire_cases [OF this] show "l' = l" and "fst obs = Some err"
    by auto
next
  assume h: "observe_select env st = (obs1, st1)
        \<and> acquire obs1 (globalLimiter st1) = Some (None, g)
        \<and> observe_select env (st1\<lparr>globalLimiter := g\<rparr>) = (obs2, st2)
        \<and> originLimiter_acquire obs2 (limiter st2) = Some (Inl err, l2)"
  then have o1: "observe_select env st = (obs1, st1)"
    and a1: "acquire obs1 (globalLimiter st1) = Some (None, g)"
    and o2: "observe_select env (st1\<lparr>globalLimiter := g\<rparr>) = (obs2, st2)"
    and a2: "originLimiter_acquire obs2 (limiter st2) = Some (Inl err, l2)"
    by simp_all
  note f1 = observe_select_frame [OF o1]
  note f2 = observe_select_frame [OF o2]
  from acquire_cases [OF a1] have g: "g = send (globalLimiter st1)" by auto
  from originLimiter_acquire_cases [OF a2] have l2: "l2 = limiter st2" by auto
  from f2 g have rel: "release (globalLimiter st2) = Some (globalLimiter st1)"
    by (simp add: release_send)
  from o1 a1 o2 a2 rel l2 f1 show "fetchImageInfo env url sizes st
            = Inr ((zero_Info, Some err), st2\<lparr>globalLimiter := globalLimiter st\<rparr>)"
    by (simp add: fetchImageInfo_def)
  from f1 f2 show "limiter st2 = limiter st" and "events st2 = events st"
    by simp_all
next
  assume "fetchImageInfo env url sizes st = Inr (r, st')"
  from fetchImageInfo_preserves [OF this]
  show "globalLimiter st' = globalLimiter st" and "base (limiter st') = base (limiter st)"
    and "extra (limiter st') = extra (limiter st)"
    by (simp_all add: preserves_def)
qed

text \<open>A full gate with a cancelled context, and a task whose context is cancelled
  between its two acquisitions.\<close>

theorem gate_acquisition_cancellation_witness:
  "\<not> can_send \<lparr>capacity = 1, count = 1\<rparr>
   \<and> acquire (Some Canceled, 0) \<lparr>capacity = 1, count = 1\<rparr>
       = Some (Some Canceled, \<lparr>capacity = 1, count = 1\<rparr>)
   \<and> originLimiter_acquire (Some Canceled, 0)
         \<lparr>base = \<lparr>capacity = 1, count = 1\<rparr>, extra = None, rangeSupported = False\<rparr>
       = Some (Inl Canceled,
           \<lparr>base = \<lparr>capacity = 1, count = 1\<rparr>, extra = None, rangeSupported = False\<rparr>)
   \<and> observe_select env_cancel st_idle = ((None, 0), st_idle\<lparr>world := 1\<rparr>)
   \<and> acquire (None, 0) (make_chan 1) = Some (None, \<lparr>capacity = 1, count = 1\<rparr>)
   \<and> originLimiter_acquire (Some Canceled, 1) (newOriginLimiter 1 1)
       = Some (Inl Canceled, newOriginLimiter 1 1)
   \<and> fetchImageInfo env_cancel x_png sizes_default st_idle
       = Inr ((zero_Info, Some Canceled), st_idle\<lparr>world := 2\<rparr>)"
  using gate_acquisition_cancellation
    [where c = "\<lparr>capacity = 1, count = 1\<rparr>" and obs = "(Some Canceled, 0)" and err = Canceled
       and c' = "\<lparr>capacity = 1, count = 1\<rparr>"
       and l = "\<lparr>base = \<lparr>capacity = 1, count = 1\<rparr>, extra = None, rangeSupported = False\<rparr>"
       and l' = "\<lparr>base = \<lparr>capacity = 1, count = 1\<rparr>, extra = None, rangeSupported = False\<rparr>"
       and env = env_cancel and st = st_idle and ?obs1.0 = "(None, 0)"
       and ?st1.0 = "st_idle\<lparr>world := 1\<rparr>" and g = "\<lparr>capacity = 1, count = 1\<rparr>"
       and ?obs2.0 = "(Some Canceled, 1)"
       and ?st2.0 = "st_idle\<lparr>world := 2, globalLimiter := \<lparr>capacity = 1, count = 1\<rparr>\<rparr>"
       and ?l2.0 = "newOriginLimiter 1 1" and url = x_png and sizes = sizes_default
       and r = "(zero_Info, Some Canceled)" and st' = "st_idle\<lparr>world := 2\<rparr>"]
  by (simp add: can_send_def acquire_def originLimiter_acquire_def select_def done_cases_def
      send_def make_chan_def newOriginLimiter_def observe_select_def env_cancel_def env_serving_def
      st_idle_def x_png_def)

section \<open>The batch\<close>





section \<open>The range flag of an origin\<close>



section \<open>The header sniffer\<close>

text \<open>
  Claim C2, evaluated where it fails: on \<open>jpeg_zero\<close> the sniffer returns the type JPEG
  with width 0 and height 0, so a type other than \<open>Unknown\<close> does not imply non-zero
  dimensions. \<open>jpeg\<close> is the one parser that assigns the type without testing the
  dimensions.
\<close>

theorem GetInfo_jpeg_zero_dimensions:
  "GetInfo jpeg_zero = Some \<lparr>Type = JPEG, Width = 0, Height = 0\<rparr>"
  by (simp add: GetInfo_def jpeg_zero_def minOffset_def len_def hasJPEG_def ix_def jpeg_def
      jpeg_loop.simps zero_Info_def nth_append)

text \<open>
  Claim C3, evaluated where it fails: on \<open>jpeg_truncated\<close> the segment walk of \<open>jpeg\<close>
  skips 1024 bytes ahead and reads \<open>b[i+3]\<close> beyond the 80 bytes of the slice; Go panics
  with an index out of range, so \<open>GetInfo\<close> does not return an \<open>Info\<close>.
\<close>

theorem GetInfo_jpeg_truncated_panics:
  "GetInfo jpeg_truncated = None"
  by (simp add: GetInfo_def jpeg_truncated_def minOffset_def len_def hasJPEG_def ix_def jpeg_def
      jpeg_loop.simps zero_Info_def)

text \<open>
  Claim C10: on every slice shorter than 80 bytes \<open>GetInfo\<close> returns the zero \<open>Info\<close>
  (type \<open>Unknown\<close>, width 0, height 0) and \<open>GetType\<close> returns \<open>Unknown\<close>, whatever the
  bytes are.
\<close>

theorem GetInfo_GetType_below_minOffset:
  "len p < 80 \<Longrightarrow>
     GetInfo p = Some \<lparr>Type = Unknown, Width = 0, Height = 0\<rparr> \<and> GetType p = Some Unknown"
  by (simp add: GetInfo_def GetType_def minOffset_def zero_Info_def)

text \<open>The witness is a well-formed GIF header: it has the GIF signature and \<open>gif\<close> itself
  reads a 1x1 image from it, yet \<open>GetInfo\<close> and \<open>GetType\<close> report nothing.\<close>

theorem GetInfo_GetType_below_minOffset_witness:
  "len gif_1x1 < 80 \<and> hasGIF gif_1x1
     \<and> gif gif_1x1 zero_Info = Some \<lparr>Type = GIF, Width = 1, Height = 1\<rparr>
     \<and> GetInfo gif_1x1 = Some \<lparr>Type = Unknown, Width = 0, Height = 0\<rparr>
     \<and> GetType gif_1x1 = Some Unknown"
proof -
  have short: "len gif_1x1 < 80"
    by (simp add: gif_1x1_def len_def)
  have "hasGIF gif_1x1"
    by (simp add: hasGIF_def gif_1x1_def len_def ix_def)
  moreover have "gif gif_1x1 zero_Info = Some \<lparr>Type = GIF, Width = 1, Height = 1\<rparr>"
    by (simp add: gif_def gif_1x1_def len_def ix_def zero_Info_def)
  ultimately show ?thesis
    using short GetInfo_GetType_below_minOffset [OF short] by simp
qed

section \<open>Option normalization\<close>

text \<open>
  Claim C8: a field below 1 is replaced by its default (20 for reusable, 5 for
  non-reusable, 50 for the global cap); then reusable is raised to non-reusable when it
  is smaller. Afterwards all three values are at least 1 and reusable is at least
  non-reusable.
\<close>

theorem normalizeHTTPImageOptions_spec:
  "ConcurrentRequestsNonReusable (normalizeHTTPImageOptions options) =
     (if ConcurrentRequestsNonReusable options < 1 then 5
      else ConcurrentRequestsNonReusable options)
   \<and> MaxConcurrentConnections (normalizeHTTPImageOptions options) =
     (if MaxConcurrentConnections options < 1 then 50 else MaxConcurrentConnections options)
   \<and> ConcurrentRequestsReusable (normalizeHTTPImageOptions options) =
     max (if ConcurrentRequestsReusable options < 1 then 20
          else ConcurrentRequestsReusable options)
         (ConcurrentRequestsNonReusable (normalizeHTTPImageOptions options))
   \<and> 1 \<le> ConcurrentRequestsReusable (normalizeHTTPImageOptions options)
   \<and> 1 \<le> ConcurrentRequestsNonReusable (normalizeHTTPImageOptions options)
   \<and> 1 \<le> MaxConcurrentConnections (normalizeHTTPImageOptions options)
   \<and> ConcurrentRequestsNonReusable (normalizeHTTPImageOptions options)
       \<le> ConcurrentRequestsReusable (normalizeHTTPImageOptions options)"
  by (simp add: normalizeHTTPImageOptions_def Let_def
      CONCURRENT_REQUESTS_FOR_REUSABLE_CONNECTIONS_DEFAULT_def
      CONCURRENT_REQUESTS_FOR_NON_REUSABLE_CONNECTIONS_DEFAULT_def
      MAX_CONCURRENT_CONNECTIONS_GLOBAL_DEFAULT_def)

text \<open>The unset options give the defaults; a reusable limit below the non-reusable one
  is raised.\<close>

theorem normalizeHTTPImageOptions_spec_witness:
  "normalizeHTTPImageOptions
     \<lparr>ConcurrentRequestsReusable = 0, ConcurrentRequestsNonReusable = 0,
      MaxConcurrentConnections = 0\<rparr>
   = \<lparr>ConcurrentRequestsReusable = 20, ConcurrentRequestsNonReusable = 5,
      MaxConcurrentConnections = 50\<rparr>
   \<and> normalizeHTTPImageOptions
     \<lparr>ConcurrentRequestsReusable = 2, ConcurrentRequestsNonReusable = 7,
      MaxConcurrentConnections = -3\<rparr>
   = \<lparr>ConcurrentRequestsReusable = 7, ConcurrentRequestsNonReusable = 7,
      MaxConcurrentConnections = 50\<rparr>"
  using normalizeHTTPImageOptions_spec
    [of "\<lparr>ConcurrentRequestsReusable = 0, ConcurrentRequestsNonReusable = 0,
      MaxConcurrentConnections = 0\<rparr>"]
    normalizeHTTPImageOptions_spec
    [of "\<lparr>ConcurrentRequestsReusable = 2, ConcurrentRequestsNonReusable = 7,
      MaxConcurrentConnections = -3\<rparr>"]
  by (simp add: normalizeHTTPImageOptions_def Let_def
      CONCURRENT_REQUESTS_FOR_REUSABLE_CONNECTIONS_DEFAULT_def
      CONCURRENT_REQUESTS_FOR_NON_REUSABLE_CONNECTIONS_DEFAULT_def
      MAX_CONCURRENT_CONNECTIONS_GLOBAL_DEFAULT_def)

end
